theory Spec2Isabelle
  imports Main "HOL-Library.Word" "HOL-Library.Sublist"
begin

section \<open>JavaScript strings\<close>

text \<open>
  A JavaScript string is a sequence of UTF-16 code units. The regular expressions of the
  source carry no \<open>u\<close> flag, so they, \<open>trim\<close>, \<open>length\<close> and \<open>includes\<close> all work on
  code units. A code unit is a 16-bit word; \<open>js\<close> embeds an ASCII literal.
\<close>

type_synonym jschar = "16 word"
type_synonym jsstring = "jschar list"

definition js :: "string \<Rightarrow> jsstring" where
  "js s = map of_char s"

text \<open>\<open>\d\<close>: the ten ASCII digits. \<open>\D\<close> is its complement.\<close>

definition isDigit :: "jschar \<Rightarrow> bool" where
  "isDigit c = (0x30 \<le> c \<and> c \<le> 0x39)"

text \<open>
  The characters that \<open>String.prototype.trim\<close> strips and that \<open>\s\<close> matches: ECMAScript's
  WhiteSpace (TAB, VT, FF, ZWNBSP and the space separators) and LineTerminator
  (LF, CR, LS, PS).
\<close>

definition isWhiteSpace :: "jschar \<Rightarrow> bool" where
  "isWhiteSpace c =
     (c \<in> {0x09, 0x0A, 0x0B, 0x0C, 0x0D, 0x20, 0xA0, 0x1680,
            0x2028, 0x2029, 0x202F, 0x205F, 0x3000, 0xFEFF}
      \<or> (0x2000 \<le> c \<and> c \<le> 0x200A))"

definition trim :: "jsstring \<Rightarrow> jsstring" where
  "trim s = rev (dropWhile isWhiteSpace (rev (dropWhile isWhiteSpace s)))"

text \<open>\<open>String.prototype.includes\<close>: the argument occurs at some position.\<close>

fun str_includes :: "jsstring \<Rightarrow> jsstring \<Rightarrow> bool" where
  "str_includes [] sub = (sub = [])"
| "str_includes (x # xs) sub = (prefix sub (x # xs) \<or> str_includes xs sub)"

text \<open>The decimal rendering of a non-negative integer, as a template literal prints it.\<close>

fun toDecimal :: "nat \<Rightarrow> jsstring" where
  "toDecimal n =
     (if n < 10 then [0x30 + of_nat n]
      else toDecimal (n div 10) @ [0x30 + of_nat (n mod 10)])"

declare toDecimal.simps [simp del]

section \<open>Utility functions (utils.js)\<close>

text \<open>\<open>phone.replace(/\D/g, '')\<close>: every code unit that is not a digit is dropped.\<close>

primrec replaceNonDigits :: "jsstring \<Rightarrow> jsstring" where
  "replaceNonDigits [] = []"
| "replaceNonDigits (c # cs) =
     (if isDigit c then c # replaceNonDigits cs else replaceNonDigits cs)"

definition validateBrazilianPhone :: "jsstring \<Rightarrow> bool" where
  "validateBrazilianPhone phone =
     (let cleanPhone = replaceNonDigits phone
      in length cleanPhone = 10 \<or> length cleanPhone = 11)"

text \<open>
  \<open>s.replace(/(\d{2})(\d{b})(\d{c})/, '($1) $2-$3')\<close>: the leftmost position where
  \<open>2 + b + c\<close> digits stand in a row is replaced by the three groups with their
  punctuation; a string with no such position is returned as it is.
\<close>

definition digitsHere :: "nat \<Rightarrow> jsstring \<Rightarrow> bool" where
  "digitsHere n s = (n \<le> length s \<and> list_all isDigit (take n s))"

definition groupsHere :: "nat \<Rightarrow> nat \<Rightarrow> jsstring \<Rightarrow> jsstring" where
  "groupsHere b c s =
     js ''('' @ take 2 s @ js '') '' @ take b (drop 2 s) @ js ''-''
       @ take c (drop (2 + b) s) @ drop (2 + b + c) s"

fun replaceGroups :: "nat \<Rightarrow> nat \<Rightarrow> jsstring \<Rightarrow> jsstring" where
  "replaceGroups b c [] = (if digitsHere (2 + b + c) [] then groupsHere b c [] else [])"
| "replaceGroups b c (x # xs) =
     (if digitsHere (2 + b + c) (x # xs) then groupsHere b c (x # xs)
      else x # replaceGroups b c xs)"

definition formatBrazilianPhone :: "jsstring \<Rightarrow> jsstring" where
  "formatBrazilianPhone phone =
     (let cleanPhone = replaceNonDigits phone
      in if length cleanPhone = 11 then replaceGroups 5 4 cleanPhone
         else if length cleanPhone = 10 then replaceGroups 4 4 cleanPhone
         else phone)"

text \<open>
  The character class of \<open>nameRegex\<close>: \<open>a-z\<close>, \<open>A-Z\<close>, the range from U+00C0 (A with
  grave) to U+00FF (y with diaeresis), \<open>\s\<close> and the hyphen, by their code units.
\<close>

definition nameChar :: "jschar \<Rightarrow> bool" where
  "nameChar c =
     ((0x61 \<le> c \<and> c \<le> 0x7A) \<or> (0x41 \<le> c \<and> c \<le> 0x5A) \<or> (0xC0 \<le> c \<and> c \<le> 0xFF)
      \<or> isWhiteSpace c \<or> c = 0x2D)"

text \<open>\<open>/^[...]{2,}$/.test(s)\<close>: the whole string, two or more characters of the class.\<close>

definition nameRegex_test :: "jsstring \<Rightarrow> bool" where
  "nameRegex_test s = (2 \<le> length s \<and> list_all nameChar s)"

definition validateName :: "jsstring \<Rightarrow> bool" where
  "validateName name = (let trimmedName = trim name in nameRegex_test trimmedName)"

text \<open>
  The letters the specification speaks of, for the comparison with \<open>nameChar\<close>: the
  letters of Unicode's blocks Basic Latin, Latin-1 Supplement and Latin Extended-A
  (U+0000 to U+017F). In Latin-1 the multiplication sign U+00D7 and the division sign
  U+00F7 stand between the accented letters and are no letters; every character of
  Latin Extended-A (U+0100 to U+017F) is a letter, most of them accented.
\<close>

definition asciiLetter :: "jschar \<Rightarrow> bool" where
  "asciiLetter c = ((0x61 \<le> c \<and> c \<le> 0x7A) \<or> (0x41 \<le> c \<and> c \<le> 0x5A))"

definition latin1AccentedLetter :: "jschar \<Rightarrow> bool" where
  "latin1AccentedLetter c =
     ((0xC0 \<le> c \<and> c \<le> 0xD6) \<or> (0xD8 \<le> c \<and> c \<le> 0xF6) \<or> (0xF8 \<le> c \<and> c \<le> 0xFF))"

definition spec_letter :: "jschar \<Rightarrow> bool" where
  "spec_letter c =
     (asciiLetter c \<or> c = 0xAA \<or> c = 0xB5 \<or> c = 0xBA \<or> latin1AccentedLetter c
      \<or> (0x100 \<le> c \<and> c \<le> 0x17F))"

text \<open>
  The specification's rule for names, in its words: the trimmed string has at least two
  characters, each a letter (accented ones included), a space or a hyphen. Every white
  space character counts as a space here.
\<close>

definition spec_validName :: "jsstring \<Rightarrow> bool" where
  "spec_validName name =
     (2 \<le> length (trim name)
      \<and> list_all (\<lambda>c. spec_letter c \<or> isWhiteSpace c \<or> c = 0x2D) (trim name))"

section \<open>JavaScript values\<close>

text \<open>
  The values that reach the code from a parsed JSON response, and \<open>undefined\<close>, which
  reading a missing property gives. Only the truthiness of a number matters to the
  functions below, so an integer stands for it. An object is the list of its properties,
  each key once; \<open>getProp\<close> reads the first entry of a key.
\<close>

datatype jsval =
    JUndefined
  | JNull
  | JBool bool
  | JNum int
  | JStr jsstring
  | JArr "jsval list"
  | JObj "(jsstring \<times> jsval) list"

fun truthy :: "jsval \<Rightarrow> bool" where
  "truthy JUndefined = False"
| "truthy JNull = False"
| "truthy (JBool b) = b"
| "truthy (JNum n) = (n \<noteq> 0)"
| "truthy (JStr s) = (s \<noteq> [])"
| "truthy (JArr xs) = True"
| "truthy (JObj kvs) = True"

text \<open>\<open>a && b\<close> and \<open>a || b\<close> return one of their operands.\<close>

definition js_and :: "jsval \<Rightarrow> jsval \<Rightarrow> jsval" where
  "js_and a b = (if truthy a then b else a)"

definition js_or :: "jsval \<Rightarrow> jsval \<Rightarrow> jsval" where
  "js_or a b = (if truthy a then a else b)"

fun nullish :: "jsval \<Rightarrow> bool" where
  "nullish JUndefined = True"
| "nullish JNull = True"
| "nullish v = False"

fun isString :: "jsval \<Rightarrow> bool" where
  "isString (JStr s) = True"
| "isString v = False"

fun isArray :: "jsval \<Rightarrow> bool" where
  "isArray (JArr xs) = True"
| "isArray v = False"

text \<open>\<open>typeof v === 'object'\<close>: objects, arrays and \<open>null\<close>.\<close>

fun typeofObject :: "jsval \<Rightarrow> bool" where
  "typeofObject (JObj kvs) = True"
| "typeofObject (JArr xs) = True"
| "typeofObject JNull = True"
| "typeofObject v = False"

text \<open>
  Reading a data property \<open>v.k\<close>. The keys read by this program (\<open>id\<close>, \<open>Name_pt_br\<close>,
  \<open>Image\<close>, \<open>thumbnails\<close>, \<open>url\<close>, \<open>results\<close> and so on) exist on no prototype, so a value
  that is not an object, or an object without the key, gives \<open>undefined\<close>. On \<open>null\<close> and
  \<open>undefined\<close> JavaScript throws instead; the functions below test for that before they
  read.
\<close>

fun getProp :: "jsval \<Rightarrow> jsstring \<Rightarrow> jsval" where
  "getProp (JObj kvs) k = (case map_of kvs k of Some v \<Rightarrow> v | None \<Rightarrow> JUndefined)"
| "getProp v k = JUndefined"

text \<open>\<open>a[0]\<close> on an array.\<close>

fun index0 :: "jsval \<Rightarrow> jsval" where
  "index0 (JArr (x # xs)) = x"
| "index0 v = JUndefined"

text \<open>
  A thrown \<open>Error\<close> object: its \<open>name\<close> and its \<open>message\<close>. \<open>new Error(m)\<close> has the name
  \<open>Error\<close>. Reading a property of \<open>null\<close> or \<open>undefined\<close> throws a \<open>TypeError\<close> whose
  message is the engine's own; no caller in this program reads it.
\<close>

record js_error =
  err_name :: jsstring
  err_message :: jsstring

definition newError :: "jsstring \<Rightarrow> js_error" where
  "newError m = \<lparr>err_name = js ''Error'', err_message = m\<rparr>"

definition nullTypeError :: js_error where
  "nullTypeError =
     \<lparr>err_name = js ''TypeError'', err_message = js ''Cannot read properties of null''\<rparr>"

section \<open>Image URLs (utils.js)\<close>

text \<open>
  \<open>/\.(jpg|jpeg|png|gif|bmp|webp|svg)(\?.*)?$/i\<close>. Without the \<open>u\<close> flag, \<open>i\<close> lets an
  ASCII letter of the pattern match its two cases only. The dot of \<open>.*\<close> matches no line
  terminator, and \<open>$\<close> is the end of the input.
\<close>

definition lowerAscii :: "jschar \<Rightarrow> jschar" where
  "lowerAscii c = (if 0x41 \<le> c \<and> c \<le> 0x5A then c + 0x20 else c)"

definition isLineTerminator :: "jschar \<Rightarrow> bool" where
  "isLineTerminator c = (c \<in> {0x0A, 0x0D, 0x2028, 0x2029})"

definition imageExtensionList :: "jsstring list" where
  "imageExtensionList =
     [js ''jpg'', js ''jpeg'', js ''png'', js ''gif'', js ''bmp'', js ''webp'', js ''svg'']"

fun queryTail :: "jsstring \<Rightarrow> bool" where
  "queryTail [] = True"
| "queryTail (q # qs) = (q = 0x3F \<and> list_all (\<lambda>c. \<not> isLineTerminator c) qs)"

definition extensionHere :: "jsstring \<Rightarrow> bool" where
  "extensionHere s =
     list_ex (\<lambda>ext. map lowerAscii (take (Suc (length ext)) s) = 0x2E # ext
                    \<and> queryTail (drop (Suc (length ext)) s))
       imageExtensionList"

fun imageExtensions_test :: "jsstring \<Rightarrow> bool" where
  "imageExtensions_test [] = extensionHere []"
| "imageExtensions_test (x # xs) = (extensionHere (x # xs) \<or> imageExtensions_test xs)"

text \<open>
  \<open>new URL(s)\<close> is the platform's URL parser; \<open>urlParses s\<close> says that it accepts \<open>s\<close>
  (does not throw).
\<close>

definition isValidImageUrl :: "(jsstring \<Rightarrow> bool) \<Rightarrow> jsval \<Rightarrow> bool" where
  "isValidImageUrl urlParses url =
     (case url of
        JStr s \<Rightarrow>
          if s = [] then False
          else
            let trimmedUrl = trim s
            in if \<not> urlParses trimmedUrl then False
               else imageExtensions_test trimmedUrl
                    \<or> str_includes trimmedUrl (js ''images'')
                    \<or> str_includes trimmedUrl (js ''photos'')
                    \<or> str_includes trimmedUrl (js ''media'')
                    \<or> str_includes trimmedUrl (js ''img'')
                    \<or> str_includes trimmedUrl (js ''baserow.io'')
                    \<or> str_includes trimmedUrl (js ''amazonaws.com'')
                    \<or> str_includes trimmedUrl (js ''cloudinary.com'')
                    \<or> str_includes trimmedUrl (js ''unsplash.com'')
      | _ \<Rightarrow> False)"

section \<open>Remote data client and data formatter (api.js)\<close>

text \<open>
  A request as \<open>fetch\<close> receives it; the body is kept as the object that
  \<open>JSON.stringify\<close> is applied to. The headers of \<open>getBaseHeaders\<close> (the fixed
  authorization token and the content type) are the same on every request and are left
  out. A response gives its status and what \<open>response.json()\<close> settles to. \<open>fetch\<close>
  itself is the platform's: it rejects with an error or resolves with a response.
\<close>

record request =
  req_url :: jsstring
  req_method :: jsstring
  req_body :: "jsval option"

record response =
  resp_status :: nat
  resp_json :: "js_error + jsval"

definition resp_ok :: "response \<Rightarrow> bool" where
  "resp_ok r = (200 \<le> resp_status r \<and> resp_status r \<le> 299)"

type_synonym fetchFn = "request \<Rightarrow> js_error + response"

definition EXPERIENCES_TABLE_URL :: jsstring where
  "EXPERIENCES_TABLE_URL =
     js ''https://api.baserow.io/api/database/rows/table/583812/?user_field_names=true''"

definition CONTACTS_TABLE_URL :: jsstring where
  "CONTACTS_TABLE_URL =
     js ''https://api.baserow.io/api/database/rows/table/592260/?user_field_names=true''"

text \<open>The formatted experience that the renderer receives.\<close>

record formatted =
  fe_id :: jsval
  fe_name :: jsval
  fe_description :: jsval
  fe_imageUrl :: jsval
  fe_originalData :: jsval

text \<open>The arguments of \<open>submitContact\<close>. \<open>Number(experienceId)\<close> of a number is the number.\<close>

record contactData =
  cd_name :: jsstring
  cd_whatsapp :: jsstring
  cd_experienceId :: int
  cd_cupom :: jsstring

text \<open>
  What the program does to the outside, in the order it does it: the requests it sends,
  the translations it loads and the calls to the view.
\<close>

datatype event =
    Fetch request
  | LoadTranslations jsstring
  | UpdateLanguageLabels "(jsstring \<times> jsstring) list"
  | ShowLoading
  | HideLoading
  | ShowError jsstring
  | RenderExperiences "formatted list"
  | SetLangSelect jsstring
  | HideFormError
  | ClearFieldErrors
  | ShowFormError jsstring
  | MarkInvalid jsstring
  | ShowFieldError jsstring jsstring
  | SetButtonLoading bool
  | SubmitContact contactData
  | OpenWhatsApp jsstring
  | CloseContactModal

fun isFetch :: "event \<Rightarrow> bool" where
  "isFetch (Fetch r) = True"
| "isFetch e = False"

fun isSubmitContact :: "event \<Rightarrow> bool" where
  "isSubmitContact (SubmitContact c) = True"
| "isSubmitContact e = False"

fun isShowFormError :: "event \<Rightarrow> bool" where
  "isShowFormError (ShowFormError m) = True"
| "isShowFormError e = False"

definition fetchExperiencesError :: js_error where
  "fetchExperiencesError =
     newError (js ''N'' @ [0xE3] @ js ''o foi poss'' @ [0xED] @ js ''vel carregar as experi''
               @ [0xEA] @ js ''ncias. Tente novamente mais tarde.'')"

definition experiencesRequest :: request where
  "experiencesRequest =
     \<lparr>req_url = EXPERIENCES_TABLE_URL, req_method = js ''GET'', req_body = None\<rparr>"

text \<open>
  \<open>fetchExperiences\<close>: every failure inside the \<open>try\<close> (a rejected \<open>fetch\<close>, a status
  that is not ok, a body that is no JSON, \<open>data.results\<close> read on \<open>null\<close>, a missing or
  non-array \<open>results\<close>) ends in the same new error.
\<close>

definition fetchExperiences :: "fetchFn \<Rightarrow> (js_error + jsval) \<times> event list" where
  "fetchExperiences fetch =
     ((case fetch experiencesRequest of
         Inl error \<Rightarrow> Inl fetchExperiencesError
       | Inr response \<Rightarrow>
           if \<not> resp_ok response then Inl fetchExperiencesError
           else (case resp_json response of
                   Inl error \<Rightarrow> Inl fetchExperiencesError
                 | Inr data \<Rightarrow>
                     if nullish data then Inl fetchExperiencesError
                     else if \<not> truthy (getProp data (js ''results''))
                             \<or> \<not> isArray (getProp data (js ''results''))
                     then Inl fetchExperiencesError
                     else Inr data)),
      [Fetch experiencesRequest])"

definition serverErrorMessage :: jsstring where
  "serverErrorMessage = js ''Erro no servidor. Tente novamente em alguns minutos.''"

definition connectionErrorMessage :: jsstring where
  "connectionErrorMessage =
     js ''Erro de conex'' @ [0xE3] @ js ''o. Verifique sua internet e tente novamente.''"

definition genericErrorMessage :: jsstring where
  "genericErrorMessage = js ''Erro ao enviar mensagem. Tente novamente.''"

text \<open>The object \<open>body\<close> of \<open>submitContact\<close>, with \<open>Parceiro_id\<close> added after the others.\<close>

definition contactBody :: "contactData \<Rightarrow> (jsstring \<times> jsval) list" where
  "contactBody c =
     [(js ''Name'', JStr (trim (cd_name c))),
      (js ''Whatsapp'', JStr (trim (cd_whatsapp c))),
      (js ''Experi'' @ [0xEA] @ js ''ncias'', JArr [JNum (cd_experienceId c)])]
     @ (if cd_cupom c \<noteq> [] \<and> trim (cd_cupom c) \<noteq> []
        then [(js ''Parceiro_id'', JStr (trim (cd_cupom c)))] else [])"

definition contactRequest :: "contactData \<Rightarrow> request" where
  "contactRequest c =
     \<lparr>req_url = CONTACTS_TABLE_URL, req_method = js ''POST'',
      req_body = Some (JObj (contactBody c))\<rparr>"

text \<open>The \<open>catch\<close> block of \<open>submitContact\<close>: the error it throws for the error it caught.\<close>

definition submitContactCatch :: "js_error \<Rightarrow> js_error" where
  "submitContactCatch error =
     (if str_includes (err_message error) (js ''HTTP error'')
      then newError serverErrorMessage
      else if err_name error = js ''TypeError'' \<and> str_includes (err_message error) (js ''fetch'')
      then newError connectionErrorMessage
      else newError genericErrorMessage)"

definition submitContact :: "fetchFn \<Rightarrow> contactData \<Rightarrow> (js_error + jsval) \<times> event list" where
  "submitContact fetch c =
     ((case fetch (contactRequest c) of
         Inl error \<Rightarrow> Inl (submitContactCatch error)
       | Inr response \<Rightarrow>
           (case resp_json response of
              Inl error \<Rightarrow> Inl (submitContactCatch error)
            | Inr responseData \<Rightarrow>
                if \<not> resp_ok response
                then Inl (submitContactCatch
                            (newError (js ''HTTP error! status: ''
                                       @ toDecimal (resp_status response))))
                else Inr responseData)),
      [Fetch (contactRequest c)])"

text \<open>
  \<open>validateExperienceData\<close> returns the value of its \<open>&&\<close> chain. \<open>experience.Name_pt_br\<close>
  is read without a test, so \<open>null\<close> and \<open>undefined\<close> throw. The part that only logs a
  missing image is left out.
\<close>

definition validateExperienceData :: "jsval \<Rightarrow> js_error + jsval" where
  "validateExperienceData experience =
     (let hasValidId =
            js_and (js_and experience (JBool (typeofObject experience)))
                   (getProp experience (js ''id''))
      in if nullish experience then Inl nullTypeError
         else
           let hasValidName =
                 js_or (getProp experience (js ''Name_pt_br''))
                       (getProp experience (js ''Name_en_us''));
               hasValidDescription =
                 js_or (getProp experience (js ''Description_pt_br''))
                       (getProp experience (js ''Description_en_us''))
           in Inr (js_and (js_and hasValidId hasValidName) hasValidDescription))"

text \<open>
  The three attempts of \<open>formatExperienceData\<close> at an image URL. Each takes the value of
  \<open>imageUrl\<close> so far and returns the new one.
\<close>

definition tryImageUrlField :: "(jsstring \<Rightarrow> bool) \<Rightarrow> jsval \<Rightarrow> jsval \<Rightarrow> jsval" where
  "tryImageUrlField urlParses experience imageUrl =
     (case getProp experience (js ''Image URL'') of
        JStr s \<Rightarrow>
          if s \<noteq> [] then
            (let candidateUrl = JStr (trim s)
             in if isValidImageUrl urlParses candidateUrl then candidateUrl else imageUrl)
          else imageUrl
      | _ \<Rightarrow> imageUrl)"

definition tryThumbnail :: "(jsstring \<Rightarrow> bool) \<Rightarrow> jsval \<Rightarrow> jsval \<Rightarrow> jsval" where
  "tryThumbnail urlParses experience imageUrl =
     (let image = getProp experience (js ''Image'')
      in if \<not> truthy imageUrl \<and> truthy image \<and> isArray image \<and> truthy (index0 image)
            \<and> truthy (getProp (index0 image) (js ''thumbnails''))
            \<and> truthy (getProp (getProp (index0 image) (js ''thumbnails'')) (js ''card_cover''))
         then
           (let candidateUrl =
                  getProp (getProp (getProp (index0 image) (js ''thumbnails''))
                                   (js ''card_cover'')) (js ''url'')
            in if isValidImageUrl urlParses candidateUrl then candidateUrl else imageUrl)
         else imageUrl)"

definition tryOriginal :: "(jsstring \<Rightarrow> bool) \<Rightarrow> jsval \<Rightarrow> jsval \<Rightarrow> jsval" where
  "tryOriginal urlParses experience imageUrl =
     (let image = getProp experience (js ''Image'')
      in if \<not> truthy imageUrl \<and> truthy image \<and> isArray image \<and> truthy (index0 image)
            \<and> truthy (getProp (index0 image) (js ''url''))
         then
           (let candidateUrl = getProp (index0 image) (js ''url'')
            in if isValidImageUrl urlParses candidateUrl then candidateUrl else imageUrl)
         else imageUrl)"

definition namePlaceholder :: jsstring where
  "namePlaceholder = js ''Experi'' @ [0xEA] @ js ''ncia sem nome''"

definition descriptionPlaceholder :: jsstring where
  "descriptionPlaceholder =
     js ''Descri'' @ [0xE7, 0xE3] @ js ''o n'' @ [0xE3] @ js ''o dispon'' @ [0xED] @ js ''vel''"

definition formatExperienceData ::
  "(jsstring \<Rightarrow> bool) \<Rightarrow> jsval \<Rightarrow> jsstring \<Rightarrow> js_error + formatted" where
  "formatExperienceData urlParses experience language =
     (if nullish experience then Inl nullTypeError
      else
        let name = (if language = js ''en-us'' then getProp experience (js ''Name_en_us'')
                    else getProp experience (js ''Name_pt_br''));
            description = (if language = js ''en-us''
                           then getProp experience (js ''Description_en_us'')
                           else getProp experience (js ''Description_pt_br''));
            imageUrl = tryOriginal urlParses experience
                         (tryThumbnail urlParses experience
                            (tryImageUrlField urlParses experience (JStr [])))
        in Inr \<lparr>fe_id = getProp experience (js ''id''),
                fe_name = js_or name (JStr namePlaceholder),
                fe_description = js_or description (JStr descriptionPlaceholder),
                fe_imageUrl = imageUrl,
                fe_originalData = experience\<rparr>)"

text \<open>
  Two notions of the specification. The first attachment of a record is the first element
  of its \<open>Image\<close>, when that is an array. A text field is empty when it holds the empty
  string or \<open>null\<close>, or is missing.
\<close>

definition firstAttachment :: "jsval \<Rightarrow> jsval" where
  "firstAttachment experience =
     (if isArray (getProp experience (js ''Image'')) then index0 (getProp experience (js ''Image''))
      else JUndefined)"

definition emptyField :: "jsval \<Rightarrow> bool" where
  "emptyField v = (v = JStr [] \<or> v = JNull \<or> v = JUndefined)"

section \<open>Modal controller (modal.js)\<close>

definition nameRequiredMessage :: jsstring where
  "nameRequiredMessage = js ''Nome '' @ [0xE9] @ js '' obrigat'' @ [0xF3] @ js ''rio''"

definition nameInvalidMessage :: jsstring where
  "nameInvalidMessage = js ''Nome deve ter pelo menos 2 caracteres e conter apenas letras''"

definition whatsappRequiredMessage :: jsstring where
  "whatsappRequiredMessage = js ''WhatsApp '' @ [0xE9] @ js '' obrigat'' @ [0xF3] @ js ''rio''"

definition whatsappInvalidMessage :: jsstring where
  "whatsappInvalidMessage =
     js ''N'' @ [0xFA] @ js ''mero de WhatsApp inv'' @ [0xE1] @ js ''lido''"

text \<open>\<open>validateForm\<close>: the name is checked and its error pushed before the phone's.\<close>

definition validateForm :: "jsstring \<Rightarrow> jsstring \<Rightarrow> jsstring list" where
  "validateForm name whatsapp =
     (if name = [] then [nameRequiredMessage]
      else if \<not> validateName name then [nameInvalidMessage]
      else [])
     @ (if whatsapp = [] then [whatsappRequiredMessage]
        else if \<not> validateBrazilianPhone whatsapp then [whatsappInvalidMessage]
        else [])"

definition highlightInvalidFields :: "jsstring \<Rightarrow> jsstring \<Rightarrow> event list" where
  "highlightInvalidFields name whatsapp =
     (if name = [] \<or> \<not> validateName name
      then [MarkInvalid (js ''contact-name''),
            ShowFieldError (js ''name-error'')
              (if name = [] then nameRequiredMessage
               else js ''Nome inv'' @ [0xE1] @ js ''lido'')]
      else [])
     @ (if whatsapp = [] \<or> \<not> validateBrazilianPhone whatsapp
        then [MarkInvalid (js ''contact-whatsapp''),
              ShowFieldError (js ''whatsapp-error'')
                (if whatsapp = [] then whatsappRequiredMessage
                 else js ''WhatsApp inv'' @ [0xE1] @ js ''lido'')]
        else [])"

definition generateWhatsAppMessage ::
  "jsstring \<Rightarrow> jsstring \<Rightarrow> jsstring \<Rightarrow> jsstring \<Rightarrow> jsstring" where
  "generateWhatsAppMessage experienceName name whatsapp cupom =
     (let message = js ''Ol'' @ [0xE1] @ js '', estou interessada no passeio '' @ experienceName
                    @ [0x0A] @ js ''Me chamo '' @ name @ [0x0A] @ js ''Telefone '' @ whatsapp
      in if cupom \<noteq> [] then message @ [0x0A] @ js ''Cupom de desconto '' @ cupom
         else message)"

text \<open>
  \<open>handleFormSubmit\<close> on a form whose two fields hold \<open>formName\<close> and \<open>formWhatsapp\<close>,
  with \<open>cupom\<close> the value of the page's \<open>cupom\<close> parameter. \<open>encodeURIComponent\<close> is the
  platform's and throws on a lone surrogate; the error then reaches the \<open>catch\<close> of
  \<open>handleFormSubmit\<close>. The result is what the handler does, in order.
\<close>

definition handleFormSubmit ::
  "fetchFn \<Rightarrow> (jsstring \<Rightarrow> js_error + jsstring) \<Rightarrow> jsstring \<Rightarrow> jsstring \<Rightarrow> jsstring
   \<Rightarrow> jsstring \<Rightarrow> int \<Rightarrow> event list" where
  "handleFormSubmit fetch encodeURIComponent formName formWhatsapp cupom
     experienceName experienceId =
     (let name = trim formName;
          whatsapp = trim formWhatsapp;
          validationErrors = validateForm name whatsapp
      in [HideFormError, ClearFieldErrors]
         @ (case validationErrors of
              firstError # others \<Rightarrow>
                ShowFormError firstError # highlightInvalidFields name whatsapp
            | [] \<Rightarrow>
                (let c = \<lparr>cd_name = name, cd_whatsapp = whatsapp,
                          cd_experienceId = experienceId, cd_cupom = cupom\<rparr>;
                     submitted = submitContact fetch c
                 in [SetButtonLoading True, SubmitContact c] @ snd submitted
                    @ (case fst submitted of
                         Inl error \<Rightarrow> [ShowFormError (err_message error)]
                       | Inr responseData \<Rightarrow>
                           (case encodeURIComponent
                                   (generateWhatsAppMessage experienceName name whatsapp cupom) of
                              Inl error \<Rightarrow> [ShowFormError (err_message error)]
                            | Inr encoded \<Rightarrow>
                                [OpenWhatsApp (js ''https://wa.me/5521987838986?text='' @ encoded),
                                 CloseContactModal]))
                    @ [SetButtonLoading False])))"

section \<open>Application controller (main.js)\<close>

text \<open>
  The application state. \<open>cachedData\<close> is \<open>null\<close> or the response of \<open>fetchExperiences\<close>.
  \<open>appTranslations\<close> is the field \<open>appState.translations\<close>: a mapping of label keys to
  strings, loaded by \<open>loadTranslations\<close> of \<open>locale/translate.js\<close>, which may fail.
\<close>

type_synonym translationTable = "(jsstring \<times> jsstring) list"

record appState =
  currentLang :: jsstring
  cachedData :: jsval
  appTranslations :: translationTable
  isLoading :: bool

type_synonym loadFn = "jsstring \<Rightarrow> js_error + translationTable"

definition loadTranslationsForLanguage ::
  "loadFn \<Rightarrow> jsstring \<Rightarrow> appState \<Rightarrow> (js_error + unit) \<times> appState \<times> event list" where
  "loadTranslationsForLanguage loadTranslations language s =
     (case loadTranslations language of
        Inr t \<Rightarrow>
          (Inr (), s\<lparr>appTranslations := t\<rparr>, [LoadTranslations language, UpdateLanguageLabels t])
      | Inl error \<Rightarrow>
          if language \<noteq> js ''pt-br'' then
            (case loadTranslations (js ''pt-br'') of
               Inr t \<Rightarrow>
                 (Inr (), s\<lparr>currentLang := js ''pt-br'', appTranslations := t\<rparr>,
                  [LoadTranslations language, LoadTranslations (js ''pt-br''),
                   UpdateLanguageLabels t])
             | Inl error2 \<Rightarrow>
                 (Inl error2, s\<lparr>currentLang := js ''pt-br''\<rparr>,
                  [LoadTranslations language, LoadTranslations (js ''pt-br'')]))
          else
            (Inl (newError (js ''N'' @ [0xE3] @ js ''o foi poss'' @ [0xED]
                            @ js ''vel carregar as tradu'' @ [0xE7, 0xF5] @ js ''es'')),
             s, [LoadTranslations language]))"

text \<open>\<open>results.filter(validateExperienceData)\<close> and the \<open>map\<close> after it; a throw ends them.\<close>

fun filterValid :: "jsval list \<Rightarrow> js_error + jsval list" where
  "filterValid [] = Inr []"
| "filterValid (x # xs) =
     (case validateExperienceData x of
        Inl error \<Rightarrow> Inl error
      | Inr v \<Rightarrow>
          (case filterValid xs of
             Inl error \<Rightarrow> Inl error
           | Inr ys \<Rightarrow> Inr (if truthy v then x # ys else ys)))"

fun mapFormat :: "(jsstring \<Rightarrow> bool) \<Rightarrow> jsstring \<Rightarrow> jsval list \<Rightarrow> js_error + formatted list" where
  "mapFormat urlParses language [] = Inr []"
| "mapFormat urlParses language (x # xs) =
     (case formatExperienceData urlParses x language of
        Inl error \<Rightarrow> Inl error
      | Inr f \<Rightarrow>
          (case mapFormat urlParses language xs of
             Inl error \<Rightarrow> Inl error
           | Inr fs \<Rightarrow> Inr (f # fs)))"

definition renderData :: "(jsstring \<Rightarrow> bool) \<Rightarrow> appState \<Rightarrow> event list" where
  "renderData urlParses s =
     (if \<not> truthy (cachedData s) \<or> \<not> truthy (getProp (cachedData s) (js ''results''))
      then [ShowError (js ''Nenhuma experi'' @ [0xEA] @ js ''ncia encontrada.'')]
      else
        (case getProp (cachedData s) (js ''results'') of
           JArr results \<Rightarrow>
             (case filterValid results of
                Inl error \<Rightarrow> [ShowError (js ''Erro ao exibir experi'' @ [0xEA] @ js ''ncias.'')]
              | Inr valid \<Rightarrow>
                  (case mapFormat urlParses (currentLang s) valid of
                     Inl error \<Rightarrow>
                       [ShowError (js ''Erro ao exibir experi'' @ [0xEA] @ js ''ncias.'')]
                   | Inr formattedExperiences \<Rightarrow>
                       if formattedExperiences = []
                       then [ShowError (js ''Nenhuma experi'' @ [0xEA] @ js ''ncia v''
                                        @ [0xE1] @ js ''lida encontrada.'')]
                       else [RenderExperiences formattedExperiences]))
         | _ \<Rightarrow> [ShowError (js ''Erro ao exibir experi'' @ [0xEA] @ js ''ncias.'')]))"

text \<open>
  \<open>loadAppData\<close>, with its guard on \<open>isLoading\<close>, its \<open>catch\<close> and its \<open>finally\<close>. The
  experiences are fetched only when \<open>cachedData\<close> is falsy.
\<close>

definition loadAppDataCatch :: "appState \<Rightarrow> js_error \<Rightarrow> event list" where
  "loadAppDataCatch s error =
     (if appTranslations s = []
      then [ShowError (js ''Erro ao carregar tradu'' @ [0xE7, 0xF5] @ js ''es. Verifique sua conex''
                       @ [0xE3] @ js ''o.'')]
      else [ShowError (if err_message error \<noteq> [] then err_message error
                       else js ''Erro ao carregar experi'' @ [0xEA]
                            @ js ''ncias. Tente novamente.'')])"

definition loadAppData ::
  "fetchFn \<Rightarrow> loadFn \<Rightarrow> (jsstring \<Rightarrow> bool) \<Rightarrow> appState \<Rightarrow> appState \<times> event list" where
  "loadAppData fetch loadTranslations urlParses s =
     (if isLoading s then (s, [])
      else
        (case loadTranslationsForLanguage loadTranslations (currentLang s) (s\<lparr>isLoading := True\<rparr>) of
           (Inl error, s1, ev1) \<Rightarrow>
             (s1\<lparr>isLoading := False\<rparr>,
              ShowLoading # ev1 @ loadAppDataCatch s1 error @ [HideLoading])
         | (Inr u, s1, ev1) \<Rightarrow>
             if \<not> truthy (cachedData s1) then
               (case fetchExperiences fetch of
                  (Inl error, ev2) \<Rightarrow>
                    (s1\<lparr>isLoading := False\<rparr>,
                     ShowLoading # ev1 @ ev2 @ loadAppDataCatch s1 error @ [HideLoading])
                | (Inr data, ev2) \<Rightarrow>
                    (s1\<lparr>cachedData := data, isLoading := False\<rparr>,
                     ShowLoading # ev1 @ ev2 @ renderData urlParses (s1\<lparr>cachedData := data\<rparr>)
                       @ [HideLoading]))
             else
               (s1\<lparr>isLoading := False\<rparr>,
                ShowLoading # ev1 @ renderData urlParses s1 @ [HideLoading])))"

text \<open>
  \<open>handleLanguageChange\<close>: the result is \<open>Inl\<close> of the error it throws again, or \<open>Inr\<close>.
\<close>

definition handleLanguageChange ::
  "loadFn \<Rightarrow> (jsstring \<Rightarrow> bool) \<Rightarrow> jsstring \<Rightarrow> appState
   \<Rightarrow> (js_error + unit) \<times> appState \<times> event list" where
  "handleLanguageChange loadTranslations urlParses newLang s =
     (if newLang = currentLang s then (Inr (), s, [])
      else
        (let previousLang = currentLang s
         in case loadTranslationsForLanguage loadTranslations newLang (s\<lparr>currentLang := newLang\<rparr>) of
              (Inr u, s1, ev1) \<Rightarrow>
                (Inr (), s1,
                 ev1 @ (if truthy (cachedData s1) then renderData urlParses s1 else []))
            | (Inl error, s1, ev1) \<Rightarrow>
                (Inl error, s1\<lparr>currentLang := previousLang\<rparr>,
                 ev1 @ [SetLangSelect previousLang])))"

definition handleRetry ::
  "fetchFn \<Rightarrow> loadFn \<Rightarrow> (jsstring \<Rightarrow> bool) \<Rightarrow> appState \<Rightarrow> appState \<times> event list" where
  "handleRetry fetch loadTranslations urlParses s =
     loadAppData fetch loadTranslations urlParses (s\<lparr>cachedData := JNull\<rparr>)"

section \<open>Example inputs\<close>

text \<open>A URL parser for the examples: it accepts what starts with \<open>https://\<close>.\<close>

definition httpsUrl :: "jsstring \<Rightarrow> bool" where
  "httpsUrl s = prefix (js ''https://'') s"

text \<open>
  A record with a direct image URL (written with a space before it), and one attachment
  with a card-sized thumbnail and an original. Its English name is empty.
\<close>

definition exampleAttachment :: jsval where
  "exampleAttachment =
     JObj [(js ''url'', JStr (js ''https://files.example/media/o.jpg'')),
           (js ''thumbnails'',
            JObj [(js ''card_cover'',
                   JObj [(js ''url'', JStr (js ''https://files.example/media/t.jpg''))])])]"

definition exampleExperience :: jsval where
  "exampleExperience =
     JObj [(js ''id'', JNum 7),
           (js ''Name_pt_br'', JStr (js ''Trilha'')),
           (js ''Name_en_us'', JStr []),
           (js ''Description_pt_br'', JStr (js ''Caminhada'')),
           (js ''Image URL'', JStr (js '' https://baserow.io/a.png'')),
           (js ''Image'', JArr [exampleAttachment])]"

text \<open>A record with no direct URL and an attachment whose thumbnail is no image URL.\<close>

definition exampleExperience2 :: jsval where
  "exampleExperience2 =
     JObj [(js ''id'', JNum 8),
           (js ''Name_en_us'', JStr (js ''Boat'')),
           (js ''Description_en_us'', JStr (js ''A boat tour'')),
           (js ''Image'',
            JArr [JObj [(js ''url'', JStr (js ''https://files.example/b.JPG?x=1'')),
                        (js ''thumbnails'',
                         JObj [(js ''card_cover'', JObj [(js ''url'', JStr (js ''thumb''))])])]])]"

definition exampleContact :: contactData where
  "exampleContact =
     \<lparr>cd_name = js '' Ana Maria '', cd_whatsapp = js ''(21) 98765-4321 '',
      cd_experienceId = 7, cd_cupom = js '' PARCEIRO10''\<rparr>"

definition exampleContactNoCoupon :: contactData where
  "exampleContactNoCoupon = exampleContact\<lparr>cd_cupom := js ''  ''\<rparr>"

definition createdFetch :: fetchFn where
  "createdFetch r = Inr \<lparr>resp_status = 200, resp_json = Inr (JObj [(js ''id'', JNum 1)])\<rparr>"

text \<open>
  Outcomes of \<open>fetch\<close>: a network failure as Safari reports it and as Chrome reports it,
  an error response with a JSON body, an error page that is no JSON, and a response
  without a body.
\<close>

definition loadFailedFetch :: fetchFn where
  "loadFailedFetch r = Inl \<lparr>err_name = js ''TypeError'', err_message = js ''Load failed''\<rparr>"

definition failedToFetch :: fetchFn where
  "failedToFetch r = Inl \<lparr>err_name = js ''TypeError'', err_message = js ''Failed to fetch''\<rparr>"

definition serverErrorFetch :: fetchFn where
  "serverErrorFetch r =
     Inr \<lparr>resp_status = 500,
          resp_json = Inr (JObj [(js ''error'', JStr (js ''ERROR_REQUEST_BODY_VALIDATION''))])\<rparr>"

definition badGatewayFetch :: fetchFn where
  "badGatewayFetch r =
     Inr \<lparr>resp_status = 502,
          resp_json = Inl \<lparr>err_name = js ''SyntaxError'',
                            err_message = js ''Unexpected token < in JSON at position 0''\<rparr>\<rparr>"

definition noContentFetch :: fetchFn where
  "noContentFetch r =
     Inr \<lparr>resp_status = 204,
          resp_json = Inl \<lparr>err_name = js ''SyntaxError'',
                            err_message = js ''Unexpected end of JSON input''\<rparr>\<rparr>"

text \<open>An encoder for the examples that do not reach \<open>encodeURIComponent\<close>.\<close>

definition identityEncode :: "jsstring \<Rightarrow> js_error + jsstring" where
  "identityEncode s = Inr s"

text \<open>A state with a cached list of two records, and a loader of two translation tables.\<close>

definition exampleState :: appState where
  "exampleState =
     \<lparr>currentLang = js ''pt-br'',
      cachedData = JObj [(js ''results'', JArr [exampleExperience, exampleExperience2])],
      appTranslations = [(js ''whatsapp'', js ''Fale conosco'')],
      isLoading = False\<rparr>"

definition exampleLoad :: loadFn where
  "exampleLoad language =
     (if language = js ''en-us'' then Inr [(js ''whatsapp'', js ''Contact us'')]
      else if language = js ''pt-br'' then Inr [(js ''whatsapp'', js ''Fale conosco'')]
      else Inl (newError (js ''Unknown language'')))"

section \<open>Phone validation and formatting\<close>

lemma replaceNonDigits_filter: "replaceNonDigits s = filter isDigit s"
  by (induction s) simp_all

lemma replaceNonDigits_all_digits: "list_all isDigit s \<Longrightarrow> replaceNonDigits s = s"
  by (induction s) simp_all

text \<open>
  C3. \<open>validateBrazilianPhone\<close> holds exactly of the strings with 10 or 11 digit
  characters, whatever stands between them; on a string of digits only, it holds exactly
  when the length is 10 or 11.
\<close>

theorem validateBrazilianPhone_iff:
  "(validateBrazilianPhone p \<longleftrightarrow>
      length (filter isDigit p) = 10 \<or> length (filter isDigit p) = 11)
   \<and> (list_all isDigit p \<longrightarrow> (validateBrazilianPhone p \<longleftrightarrow> length p = 10 \<or> length p = 11))"
proof -
  have "list_all isDigit p \<Longrightarrow> filter isDigit p = p"
    using replaceNonDigits_all_digits [of p] by (simp add: replaceNonDigits_filter)
  then show ?thesis
    by (auto simp: validateBrazilianPhone_def Let_def replaceNonDigits_filter)
qed

theorem validateBrazilianPhone_iff_witness:
  "list_all isDigit (js ''2134567890'') \<and> validateBrazilianPhone (js ''2134567890'')
   \<and> validateBrazilianPhone (js ''(21) 98765-4321'')
   \<and> \<not> validateBrazilianPhone (js ''219876543210'')"
  using validateBrazilianPhone_iff [of "js ''2134567890''"]
    validateBrazilianPhone_iff [of "js ''(21) 98765-4321''"]
    validateBrazilianPhone_iff [of "js ''219876543210''"]
  by (simp add: js_def isDigit_def)

lemma replaceGroups_all_digits:
  "list_all isDigit s \<Longrightarrow> length s = 2 + b + c \<Longrightarrow> replaceGroups b c s = groupsHere b c s"
  by (cases s) (simp_all add: digitsHere_def)

lemma groupsHere_exact:
  "length s = 2 + b + c \<Longrightarrow>
   groupsHere b c s = js ''('' @ take 2 s @ js '') '' @ take b (drop 2 s) @ js ''-'' @ drop (2 + b) s"
  by (simp add: groupsHere_def)

lemma list_all_filter_isDigit: "list_all isDigit (filter isDigit p)"
  by (simp add: list_all_iff)

lemma formatBrazilianPhone_eq:
  "formatBrazilianPhone p =
     (let d = filter isDigit p
      in if length d = 11 then js ''('' @ take 2 d @ js '') '' @ take 5 (drop 2 d) @ js ''-'' @ drop 7 d
         else if length d = 10 then js ''('' @ take 2 d @ js '') '' @ take 4 (drop 2 d) @ js ''-'' @ drop 6 d
         else p)"
proof -
  let ?d = "filter isDigit p"
  have d: "list_all isDigit ?d" by (rule list_all_filter_isDigit)
  have e11: "replaceGroups 5 4 ?d = js ''('' @ take 2 ?d @ js '') '' @ take 5 (drop 2 ?d) @ js ''-'' @ drop 7 ?d"
    if "length ?d = 11"
    using replaceGroups_all_digits [OF d, of 5 4] groupsHere_exact [of ?d 5 4] that by simp
  have e10: "replaceGroups 4 4 ?d = js ''('' @ take 2 ?d @ js '') '' @ take 4 (drop 2 ?d) @ js ''-'' @ drop 6 ?d"
    if "length ?d = 10"
    using replaceGroups_all_digits [OF d, of 4 4] groupsHere_exact [of ?d 4 4] that by simp
  show ?thesis
    using e11 e10 by (simp add: formatBrazilianPhone_def Let_def replaceNonDigits_filter)
qed

text \<open>
  C4. \<open>formatBrazilianPhone\<close> strips the non-digits; eleven remaining digits are grouped
  as \<open>(DD) DDDDD-DDDD\<close>, ten as \<open>(DD) DDDD-DDDD\<close>, and with any other number of digits
  the input comes back unchanged. The two examples of the specification are evaluated.
\<close>

theorem formatBrazilianPhone_groups:
  "formatBrazilianPhone p =
     (let d = filter isDigit p
      in if length d = 11 then js ''('' @ take 2 d @ js '') '' @ take 5 (drop 2 d) @ js ''-'' @ drop 7 d
         else if length d = 10 then js ''('' @ take 2 d @ js '') '' @ take 4 (drop 2 d) @ js ''-'' @ drop 6 d
         else p)
   \<and> formatBrazilianPhone (js ''21987654321'') = js ''(21) 98765-4321''
   \<and> formatBrazilianPhone (js ''2134567890'') = js ''(21) 3456-7890''"
proof (intro conjI)
  show "formatBrazilianPhone p =
     (let d = filter isDigit p
      in if length d = 11 then js ''('' @ take 2 d @ js '') '' @ take 5 (drop 2 d) @ js ''-'' @ drop 7 d
         else if length d = 10 then js ''('' @ take 2 d @ js '') '' @ take 4 (drop 2 d) @ js ''-'' @ drop 6 d
         else p)"
    by (rule formatBrazilianPhone_eq)
  show "formatBrazilianPhone (js ''21987654321'') = js ''(21) 98765-4321''"
    by (simp add: formatBrazilianPhone_def js_def isDigit_def digitsHere_def groupsHere_def)
  show "formatBrazilianPhone (js ''2134567890'') = js ''(21) 3456-7890''"
    by (simp add: formatBrazilianPhone_def js_def isDigit_def digitsHere_def groupsHere_def)
qed

theorem formatBrazilianPhone_groups_witness:
  "formatBrazilianPhone (js ''21 98765.4321'') = js ''(21) 98765-4321''
   \<and> formatBrazilianPhone (js ''+55 21 98765-4321'') = js ''+55 21 98765-4321''"
  using formatBrazilianPhone_groups [of "js ''21 98765.4321''"]
    formatBrazilianPhone_groups [of "js ''+55 21 98765-4321''"]
  by (simp add: js_def isDigit_def)

lemma filter_isDigit_punct:
  "filter isDigit (js ''('') = []" "filter isDigit (js '') '') = []" "filter isDigit (js ''-'') = []"
  by (simp_all add: js_def isDigit_def)

lemma filter_groups:
  "list_all isDigit d \<Longrightarrow> 2 + b \<le> length d \<Longrightarrow>
   filter isDigit (js ''('' @ take 2 d @ js '') '' @ take b (drop 2 d) @ js ''-'' @ drop (2 + b) d) = d"
proof -
  assume a: "list_all isDigit d" and l: "2 + b \<le> length d"
  have f: "filter isDigit xs = xs" if "list_all isDigit xs" for xs
    using that by (induction xs) simp_all
  have t: "list_all isDigit (take n d)" "list_all isDigit (drop n d)" for n
    using a by (auto simp: list_all_iff dest: in_set_takeD in_set_dropD)
  have t2: "list_all isDigit (take b (drop 2 d))"
    using t(2) [of 2] by (auto simp: list_all_iff dest: in_set_takeD)
  have "take 2 d @ take b (drop 2 d) @ drop (2 + b) d = d"
    by (metis append_take_drop_id drop_drop add.commute)
  then show ?thesis
    by (simp add: filter_isDigit_punct f t t2)
qed

text \<open>
  C10. \<open>formatBrazilianPhone\<close> is idempotent: the punctuation it inserts holds no digit,
  so a formatted number has the digits it was built from and formats to itself.
\<close>

theorem formatBrazilianPhone_idempotent:
  "formatBrazilianPhone (formatBrazilianPhone p) = formatBrazilianPhone p"
proof -
  let ?d = "filter isDigit p"
  have d: "list_all isDigit ?d" by (rule list_all_filter_isDigit)
  consider (mobile) "length ?d = 11" | (landline) "length ?d = 10"
    | (other) "length ?d \<noteq> 11" "length ?d \<noteq> 10"
    by blast
  then show ?thesis
  proof cases
    case mobile
    let ?g = "js ''('' @ take 2 ?d @ js '') '' @ take 5 (drop 2 ?d) @ js ''-'' @ drop 7 ?d"
    have g: "formatBrazilianPhone p = ?g"
      using mobile by (simp add: formatBrazilianPhone_eq [of p] Let_def)
    have "filter isDigit ?g = ?d"
      using filter_groups [OF d, of 5] mobile by simp
    then have "formatBrazilianPhone ?g = ?g"
      using mobile by (simp add: formatBrazilianPhone_eq [of ?g] Let_def)
    then show ?thesis by (simp add: g)
  next
    case landline
    let ?g = "js ''('' @ take 2 ?d @ js '') '' @ take 4 (drop 2 ?d) @ js ''-'' @ drop 6 ?d"
    have g: "formatBrazilianPhone p = ?g"
      using landline by (simp add: formatBrazilianPhone_eq [of p] Let_def)
    have "filter isDigit ?g = ?d"
      using filter_groups [OF d, of 4] landline by simp
    then have "formatBrazilianPhone ?g = ?g"
      using landline by (simp add: formatBrazilianPhone_eq [of ?g] Let_def)
    then show ?thesis by (simp add: g)
  next
    case other
    then have "formatBrazilianPhone p = p"
      by (simp add: formatBrazilianPhone_eq [of p] Let_def)
    then show ?thesis by simp
  qed
qed

theorem formatBrazilianPhone_idempotent_witness:
  "formatBrazilianPhone (formatBrazilianPhone (js ''21 3456 7890'')) = js ''(21) 3456-7890''"
  using formatBrazilianPhone_idempotent [of "js ''21 3456 7890''"]
  by (simp add: formatBrazilianPhone_def js_def isDigit_def digitsHere_def groupsHere_def)

section \<open>Trimming\<close>

lemma trim_Nil: "trim [] = []"
  by (simp add: trim_def)

lemma dropWhile_rev_dropWhile_rev:
  assumes "dropWhile P t = t"
  shows "dropWhile P (rev (dropWhile P (rev t))) = rev (dropWhile P (rev t))"
proof (cases "dropWhile P (rev t) = []")
  case True
  show ?thesis unfolding True by simp
next
  case False
  let ?u = "dropWhile P (rev t)"
  from False obtain x where x: "x \<in> set (rev t)" "\<not> P x"
    by auto
  then have t: "t \<noteq> []" by auto
  with assms have "\<not> P (hd t)"
    by (simp add: dropWhile_eq_self_iff)
  moreover have "last ?u = last (rev t)"
    using x by (rule dropWhile_last)
  ultimately have "\<not> P (hd (rev ?u))"
    using False t by (simp add: hd_rev last_rev)
  then show ?thesis
    by (simp add: dropWhile_eq_self_iff)
qed

lemma trim_idem: "trim (trim s) = trim s"
proof -
  have "dropWhile isWhiteSpace (trim s) = trim s"
    unfolding trim_def by (rule dropWhile_rev_dropWhile_rev) (rule dropWhile_idem)
  then show ?thesis
    by (simp add: trim_def [of "trim s"]) (simp add: trim_def)
qed

section \<open>Name validation\<close>

lemma nameChar_split:
  "nameChar c \<longleftrightarrow>
     asciiLetter c \<or> latin1AccentedLetter c \<or> c = 0xD7 \<or> c = 0xF7 \<or> isWhiteSpace c \<or> c = 0x2D"
proof -
  have "(0xC0 \<le> c \<and> c \<le> 0xFF) \<longleftrightarrow> latin1AccentedLetter c \<or> c = 0xD7 \<or> c = 0xF7"
    unfolding latin1AccentedLetter_def word_le_nat_alt word_unat_eq_iff by simp arith
  then show ?thesis
    unfolding nameChar_def asciiLetter_def by blast
qed

text \<open>
  C5, as the specification states it, fails: \<open>validateName\<close> rejects a name written with an
  accented letter outside Latin-1. The name below is S-caron, a-acute, r, k, a.
\<close>

theorem validateName_counterexample:
  "spec_validName [0x160, 0xE1, 0x72, 0x6B, 0x61] \<and> \<not> validateName [0x160, 0xE1, 0x72, 0x6B, 0x61]"
  by (simp add: spec_validName_def validateName_def nameRegex_test_def nameChar_def trim_def
      isWhiteSpace_def spec_letter_def asciiLetter_def latin1AccentedLetter_def)

text \<open>
  C5, amended. \<open>validateName\<close> holds exactly of the names whose trimmed form has at least
  two code units, each an ASCII letter, an accented letter of Latin-1 (U+00C0 to U+00FF),
  a white space character or a hyphen. The statement is about trimmed names with neither
  the multiplication sign U+00D7 nor the division sign U+00F7, which lie in the range
  of the class. The three examples of the specification hold.
\<close>

theorem validateName_latin1:
  "(0xD7 \<notin> set (trim name) \<and> 0xF7 \<notin> set (trim name) \<longrightarrow>
      (validateName name \<longleftrightarrow>
         2 \<le> length (trim name)
         \<and> list_all (\<lambda>c. asciiLetter c \<or> latin1AccentedLetter c \<or> isWhiteSpace c \<or> c = 0x2D)
             (trim name)))
   \<and> validateName (js ''Ana'') \<and> \<not> validateName (js ''A1'') \<and> \<not> validateName (js '''')"
proof (intro conjI impI)
  assume "0xD7 \<notin> set (trim name) \<and> 0xF7 \<notin> set (trim name)"
  then have "list_all nameChar (trim name) \<longleftrightarrow>
      list_all (\<lambda>c. asciiLetter c \<or> latin1AccentedLetter c \<or> isWhiteSpace c \<or> c = 0x2D) (trim name)"
    unfolding list_all_iff using nameChar_split by blast
  then show "validateName name \<longleftrightarrow>
         2 \<le> length (trim name)
         \<and> list_all (\<lambda>c. asciiLetter c \<or> latin1AccentedLetter c \<or> isWhiteSpace c \<or> c = 0x2D)
             (trim name)"
    by (simp add: validateName_def nameRegex_test_def Let_def)
next
  show "validateName (js ''Ana'')"
    by (simp add: validateName_def trim_def js_def isWhiteSpace_def nameRegex_test_def nameChar_def)
  show "\<not> validateName (js ''A1'')"
    by (simp add: validateName_def trim_def js_def isWhiteSpace_def nameRegex_test_def nameChar_def)
  show "\<not> validateName (js '''')"
    by (simp add: validateName_def trim_def js_def isWhiteSpace_def nameRegex_test_def nameChar_def)
qed

theorem validateName_latin1_witness:
  "0xD7 \<notin> set (trim (js '' Jos'' @ [0xE9] @ js '' da Silva-S'' @ [0xE1] @ js '' ''))
   \<and> 0xF7 \<notin> set (trim (js '' Jos'' @ [0xE9] @ js '' da Silva-S'' @ [0xE1] @ js '' ''))
   \<and> validateName (js '' Jos'' @ [0xE9] @ js '' da Silva-S'' @ [0xE1] @ js '' '')"
  using validateName_latin1 [of "js '' Jos'' @ [0xE9] @ js '' da Silva-S'' @ [0xE1] @ js '' ''"]
  by (simp add: trim_def js_def isWhiteSpace_def asciiLetter_def latin1AccentedLetter_def)

text \<open>
  The range from U+00C0 to U+00FF also holds the multiplication sign and the division
  sign, and \<open>validateName\<close> lets them through: here \<open>a\<close>, U+00D7, \<open>b\<close>.
\<close>

lemma validateName_multiplication_sign: "validateName [0x61, 0xD7, 0x62]"
  by (simp add: validateName_def nameRegex_test_def nameChar_def trim_def isWhiteSpace_def)

section \<open>Formatting an experience\<close>

lemma isValidImageUrl_truthy: "isValidImageUrl urlParses v \<Longrightarrow> truthy v"
  by (cases v) (auto simp: isValidImageUrl_def split: if_splits)

lemma isValidImageUrl_Nil: "\<not> isValidImageUrl urlParses (JStr [])"
  by (simp add: isValidImageUrl_def)

lemma isValidImageUrl_undefined: "\<not> isValidImageUrl urlParses JUndefined"
  by (simp add: isValidImageUrl_def)

lemma getProp_falsy: "\<not> truthy v \<Longrightarrow> getProp v k = JUndefined"
  by (cases v) simp_all

lemma extensionHere_Nil: "\<not> extensionHere []"
  by (simp add: extensionHere_def imageExtensionList_def js_def)

lemma isArray_truthy: "isArray v \<Longrightarrow> truthy v"
  by (cases v) simp_all

lemma isValidImageUrl_blank: "trim s = [] \<Longrightarrow> \<not> isValidImageUrl urlParses (JStr s)"
  by (simp add: isValidImageUrl_def Let_def extensionHere_Nil js_def)

lemma isValidImageUrl_trim:
  "isValidImageUrl urlParses (JStr (trim s)) = isValidImageUrl urlParses (JStr s)"
proof (cases "trim s = []")
  case True
  then show ?thesis
    using isValidImageUrl_blank [of s urlParses] by (simp add: isValidImageUrl_Nil)
next
  case False
  then have "s \<noteq> []" by (auto simp: trim_Nil)
  with False show ?thesis
    by (simp add: isValidImageUrl_def Let_def trim_idem)
qed

lemma tryImageUrlField_eq:
  "tryImageUrlField urlParses experience (JStr []) =
     (case getProp experience (js ''Image URL'') of
        JStr s \<Rightarrow> if isValidImageUrl urlParses (JStr s) then JStr (trim s) else JStr []
      | _ \<Rightarrow> JStr [])"
  by (auto simp: tryImageUrlField_def Let_def isValidImageUrl_trim isValidImageUrl_Nil
      split: jsval.splits)

lemma tryThumbnail_eq:
  "tryThumbnail urlParses experience imageUrl =
     (let thumb = getProp (getProp (getProp (firstAttachment experience) (js ''thumbnails''))
                    (js ''card_cover'')) (js ''url'')
      in if truthy imageUrl then imageUrl
         else if isValidImageUrl urlParses thumb then thumb else imageUrl)"
  by (auto simp: tryThumbnail_def firstAttachment_def Let_def getProp_falsy
      isValidImageUrl_undefined dest: isArray_truthy)

lemma tryOriginal_eq:
  "tryOriginal urlParses experience imageUrl =
     (let original = getProp (firstAttachment experience) (js ''url'')
      in if truthy imageUrl then imageUrl
         else if isValidImageUrl urlParses original then original else imageUrl)"
  by (auto simp: tryOriginal_def firstAttachment_def Let_def getProp_falsy
      isValidImageUrl_undefined dest: isValidImageUrl_truthy isArray_truthy)

text \<open>
  C2, as the specification states it, fails: the direct URL of the example record passes
  \<open>isValidImageUrl\<close>, and the record resolves to that URL without the space before it,
  not to the field as it stands.
\<close>

theorem formatExperienceData_imageUrl_counterexample:
  "isValidImageUrl httpsUrl (getProp exampleExperience (js ''Image URL''))
   \<and> map_sum id fe_imageUrl (formatExperienceData httpsUrl exampleExperience (js ''pt-br''))
       \<noteq> Inr (getProp exampleExperience (js ''Image URL''))"
  by (simp add: exampleExperience_def exampleAttachment_def formatExperienceData_def
      tryImageUrlField_eq tryThumbnail_eq tryOriginal_eq firstAttachment_def
      isValidImageUrl_def httpsUrl_def trim_def isWhiteSpace_def js_def)

text \<open>
  C2, amended. The image URL of a formatted record is the first of these that passes
  \<open>isValidImageUrl\<close>: the direct image-URL field, trimmed; the URL of the first attachment's
  card-sized thumbnail; the URL of the first attachment itself; and the empty string when
  none passes. A record that is an object is always formatted.
\<close>

theorem formatExperienceData_imageUrl:
  "\<not> nullish experience \<Longrightarrow>
   map_sum id fe_imageUrl (formatExperienceData urlParses experience language) =
     Inr (let direct = getProp experience (js ''Image URL'');
              thumb = getProp (getProp (getProp (firstAttachment experience) (js ''thumbnails''))
                        (js ''card_cover'')) (js ''url'');
              original = getProp (firstAttachment experience) (js ''url'')
          in if isValidImageUrl urlParses direct
             then (case direct of JStr s \<Rightarrow> JStr (trim s) | _ \<Rightarrow> direct)
             else if isValidImageUrl urlParses thumb then thumb
             else if isValidImageUrl urlParses original then original
             else JStr [])"
proof -
  assume e: "\<not> nullish experience"
  let ?direct = "getProp experience (js ''Image URL'')"
  have d: "tryImageUrlField urlParses experience (JStr []) =
      (if isValidImageUrl urlParses ?direct
       then (case ?direct of JStr s \<Rightarrow> JStr (trim s) | _ \<Rightarrow> ?direct) else JStr [])"
    by (cases ?direct) (simp_all add: tryImageUrlField_eq isValidImageUrl_def)
  have t: "truthy (case ?direct of JStr s \<Rightarrow> JStr (trim s) | _ \<Rightarrow> ?direct)"
    if "isValidImageUrl urlParses ?direct"
  proof (cases ?direct)
    case (JStr s)
    with that have "isValidImageUrl urlParses (JStr (trim s))"
      by (simp add: isValidImageUrl_trim)
    then show ?thesis
      using JStr by (auto dest: isValidImageUrl_truthy)
  qed (use that in \<open>simp_all add: isValidImageUrl_def\<close>)
  show ?thesis
    using e t
    by (auto simp: formatExperienceData_def Let_def d tryThumbnail_eq tryOriginal_eq
        dest: isValidImageUrl_truthy)
qed

theorem formatExperienceData_imageUrl_witness:
  "\<not> nullish exampleExperience \<and> \<not> nullish exampleExperience2
   \<and> map_sum id fe_imageUrl (formatExperienceData httpsUrl exampleExperience (js ''en-us''))
       = Inr (JStr (js ''https://baserow.io/a.png''))
   \<and> map_sum id fe_imageUrl (formatExperienceData httpsUrl exampleExperience2 (js ''en-us''))
       = Inr (JStr (js ''https://files.example/b.JPG?x=1''))"
proof -
  have 1: "\<not> nullish exampleExperience" and 2: "\<not> nullish exampleExperience2"
    by (simp_all add: exampleExperience_def exampleExperience2_def)
  show ?thesis
    using formatExperienceData_imageUrl [OF 1, of httpsUrl "js ''en-us''"]
      formatExperienceData_imageUrl [OF 2, of httpsUrl "js ''en-us''"]
    by (simp add: exampleExperience_def exampleExperience2_def exampleAttachment_def
        firstAttachment_def isValidImageUrl_def httpsUrl_def trim_def isWhiteSpace_def js_def
        extensionHere_def imageExtensionList_def lowerAscii_def isLineTerminator_def)
qed

section \<open>Names and descriptions\<close>

lemma placeholders_not_empty: "namePlaceholder \<noteq> []" "descriptionPlaceholder \<noteq> []"
  by (simp_all add: namePlaceholder_def descriptionPlaceholder_def js_def)

lemma js_or_placeholder: "p \<noteq> [] \<Longrightarrow> js_or v (JStr p) \<noteq> JStr []"
  by (cases v) (auto simp: js_or_def)

text \<open>
  C6. A formatted record never has the empty string as its name or its description. The
  field of the selected language (English for \<open>en-us\<close>, Portuguese otherwise) is kept
  when it is truthy and the fixed placeholder stands in when it is not; for a text field,
  that is exactly when the field is empty, so also when the fields of both languages are.
\<close>

theorem formatExperienceData_placeholders:
  "\<not> nullish experience \<Longrightarrow>
   (\<exists>f. formatExperienceData urlParses experience language = Inr f
        \<and> fe_name f \<noteq> JStr [] \<and> fe_description f \<noteq> JStr []
        \<and> (let name = getProp experience
                          (if language = js ''en-us'' then js ''Name_en_us'' else js ''Name_pt_br'')
           in fe_name f = (if truthy name then name else JStr namePlaceholder)
              \<and> (isString name \<or> nullish name \<longrightarrow>
                   fe_name f = (if emptyField name then JStr namePlaceholder else name)))
        \<and> (let description = getProp experience
                          (if language = js ''en-us'' then js ''Description_en_us''
                           else js ''Description_pt_br'')
           in fe_description f
                = (if truthy description then description else JStr descriptionPlaceholder)
              \<and> (isString description \<or> nullish description \<longrightarrow>
                   fe_description f
                     = (if emptyField description then JStr descriptionPlaceholder
                        else description))))"
proof -
  assume e: "\<not> nullish experience"
  have t: "truthy v \<longleftrightarrow> \<not> emptyField v" if "isString v \<or> nullish v" for v
    using that by (cases v) (simp_all add: emptyField_def)
  show ?thesis
    using e
    by (auto simp: formatExperienceData_def Let_def js_or_placeholder placeholders_not_empty
        js_or_def t)
qed

theorem formatExperienceData_placeholders_witness:
  "\<not> nullish exampleExperience
   \<and> map_sum id fe_name (formatExperienceData httpsUrl exampleExperience (js ''en-us''))
       = Inr (JStr namePlaceholder)
   \<and> map_sum id fe_description (formatExperienceData httpsUrl exampleExperience (js ''en-us''))
       = Inr (JStr descriptionPlaceholder)
   \<and> map_sum id fe_name (formatExperienceData httpsUrl exampleExperience (js ''pt-br''))
       = Inr (JStr (js ''Trilha''))"
proof -
  have 1: "\<not> nullish exampleExperience"
    by (simp add: exampleExperience_def)
  have k: "getProp exampleExperience (js ''Name_en_us'') = JStr []"
    "getProp exampleExperience (js ''Description_en_us'') = JUndefined"
    "getProp exampleExperience (js ''Name_pt_br'') = JStr (js ''Trilha'')"
    "js ''pt-br'' \<noteq> js ''en-us''" "js ''Trilha'' \<noteq> []"
    by (simp_all add: exampleExperience_def js_def)
  show ?thesis
    using formatExperienceData_placeholders [OF 1, of httpsUrl "js ''en-us''"]
      formatExperienceData_placeholders [OF 1, of httpsUrl "js ''pt-br''"]
    by (auto simp: 1 k Let_def)
qed

section \<open>Submitting a contact\<close>

text \<open>
  C8. \<open>submitContact\<close> sends one request. Its body holds the trimmed name under \<open>Name\<close>,
  the trimmed phone under \<open>Whatsapp\<close> and the list of the one experience identifier under
  the key of the experiences; it has the key \<open>Parceiro_id\<close> exactly when the trimmed coupon is not
  empty, and then the trimmed coupon under it.
\<close>

theorem submitContact_body:
  "snd (submitContact fetch c) = [Fetch (contactRequest c)]
   \<and> req_body (contactRequest c) = Some (JObj (contactBody c))
   \<and> map_of (contactBody c) (js ''Name'') = Some (JStr (trim (cd_name c)))
   \<and> map_of (contactBody c) (js ''Whatsapp'') = Some (JStr (trim (cd_whatsapp c)))
   \<and> map_of (contactBody c) (js ''Experi'' @ [0xEA] @ js ''ncias'')
       = Some (JArr [JNum (cd_experienceId c)])
   \<and> (js ''Parceiro_id'' \<in> fst ` set (contactBody c) \<longleftrightarrow> trim (cd_cupom c) \<noteq> [])
   \<and> map_of (contactBody c) (js ''Parceiro_id'')
       = (if trim (cd_cupom c) \<noteq> [] then Some (JStr (trim (cd_cupom c))) else None)"
proof -
  have "cd_cupom c = [] \<Longrightarrow> trim (cd_cupom c) = []"
    by (simp add: trim_Nil)
  then have g: "(cd_cupom c \<noteq> [] \<and> trim (cd_cupom c) \<noteq> []) = (trim (cd_cupom c) \<noteq> [])"
    by blast
  have b: "contactBody c =
      [(js ''Name'', JStr (trim (cd_name c))),
       (js ''Whatsapp'', JStr (trim (cd_whatsapp c))),
       (js ''Experi'' @ [0xEA] @ js ''ncias'', JArr [JNum (cd_experienceId c)])]
      @ (if trim (cd_cupom c) \<noteq> [] then [(js ''Parceiro_id'', JStr (trim (cd_cupom c)))] else [])"
    unfolding contactBody_def g by (rule refl)
  have r: "snd (submitContact fetch c) = [Fetch (contactRequest c)]"
    "req_body (contactRequest c) = Some (JObj (contactBody c))"
    by (simp_all add: submitContact_def contactRequest_def)
  show ?thesis
    unfolding b [unfolded js_def] js_def using r [unfolded js_def] 
    by (simp add: b [unfolded js_def])
qed

theorem submitContact_body_witness:
  "map_of (contactBody exampleContact) (js ''Parceiro_id'') = Some (JStr (js ''PARCEIRO10''))
   \<and> map_of (contactBody exampleContactNoCoupon) (js ''Parceiro_id'') = None
   \<and> map_of (contactBody exampleContact) (js ''Name'') = Some (JStr (js ''Ana Maria''))
   \<and> map_of (contactBody exampleContact) (js ''Whatsapp'') = Some (JStr (js ''(21) 98765-4321''))
   \<and> snd (submitContact createdFetch exampleContact) = [Fetch (contactRequest exampleContact)]"
  using submitContact_body [of createdFetch exampleContact]
    submitContact_body [of createdFetch exampleContactNoCoupon]
  by (simp add: exampleContact_def exampleContactNoCoupon_def trim_def isWhiteSpace_def js_def)

lemma str_includes_prefix: "prefix sub s \<Longrightarrow> str_includes s sub"
  by (cases s) simp_all

text \<open>\<open>str_includes\<close> is the contiguous-sublist relation of the library.\<close>

lemma str_includes_sublist: "str_includes s sub \<longleftrightarrow> sublist sub s"
proof (induction s)
  case Nil
  show ?case by simp
next
  case (Cons x xs)
  then show ?case
    by (cases sub) (simp_all add: sublist_Cons_right)
qed

lemma http_error_includes: "str_includes (js ''HTTP error! status: '' @ t) (js ''HTTP error'')"
  by (rule str_includes_prefix) (simp add: js_def)

lemma messages_distinct:
  "serverErrorMessage \<noteq> connectionErrorMessage" "serverErrorMessage \<noteq> genericErrorMessage"
  "connectionErrorMessage \<noteq> genericErrorMessage"
  by (simp_all add: serverErrorMessage_def connectionErrorMessage_def genericErrorMessage_def js_def)

lemma submitContactCatch_cases:
  "submitContactCatch error \<in>
     {newError serverErrorMessage, newError connectionErrorMessage, newError genericErrorMessage}"
  by (simp add: submitContactCatch_def)

text \<open>
  C9, as the specification states it, fails: when the network is down, Safari rejects
  \<open>fetch\<close> with a \<open>TypeError\<close> whose message is \<open>Load failed\<close>, and \<open>submitContact\<close> answers
  with the generic message, not with the connectivity message. An error response whose
  body is no JSON gets the generic message too, not the server-error message.
\<close>

theorem submitContact_failure_counterexample:
  "fst (submitContact loadFailedFetch exampleContact) = Inl (newError genericErrorMessage)
   \<and> fst (submitContact badGatewayFetch exampleContact) = Inl (newError genericErrorMessage)
   \<and> genericErrorMessage \<noteq> connectionErrorMessage
   \<and> genericErrorMessage \<noteq> serverErrorMessage"
  by (simp add: submitContact_def loadFailedFetch_def badGatewayFetch_def submitContactCatch_def
      messages_distinct [symmetric]) (simp add: js_def)


text \<open>
  C9, amended. A failure of \<open>submitContact\<close> throws a new error with one of three fixed
  messages and nothing of its cause. It is the server-error message for a response
  outside 2xx whose body is JSON; for a rejected \<open>fetch\<close> whose error message does not
  contain \<open>HTTP error\<close>, it is the connectivity message when the error is a \<open>TypeError\<close>
  whose message contains \<open>fetch\<close>, and the generic message otherwise; and it is the
  generic message for a 2xx response whose body fails to parse with such an error.
\<close>

theorem submitContact_failure:
  "(fst (submitContact fetch c) = Inl e \<longrightarrow>
      e \<in> {newError serverErrorMessage, newError connectionErrorMessage,
           newError genericErrorMessage})
   \<and> (fetch (contactRequest c) = Inr response \<and> \<not> resp_ok response
        \<and> resp_json response = Inr responseData \<longrightarrow>
      fst (submitContact fetch c) = Inl (newError serverErrorMessage))
   \<and> (fetch (contactRequest c) = Inl error
        \<and> \<not> str_includes (err_message error) (js ''HTTP error'') \<longrightarrow>
      fst (submitContact fetch c) =
        Inl (newError (if err_name error = js ''TypeError''
                          \<and> str_includes (err_message error) (js ''fetch'')
                       then connectionErrorMessage else genericErrorMessage)))
   \<and> (fetch (contactRequest c) = Inr response \<and> resp_ok response
        \<and> resp_json response = Inl error
        \<and> \<not> str_includes (err_message error) (js ''HTTP error'')
        \<and> \<not> str_includes (err_message error) (js ''fetch'') \<longrightarrow>
      fst (submitContact fetch c) = Inl (newError genericErrorMessage))
   \<and> (fetch (contactRequest c) = Inr response \<and> resp_ok response
        \<and> resp_json response = Inr responseData \<longrightarrow>
      fst (submitContact fetch c) = Inr responseData)
   \<and> serverErrorMessage \<noteq> connectionErrorMessage
   \<and> serverErrorMessage \<noteq> genericErrorMessage
   \<and> connectionErrorMessage \<noteq> genericErrorMessage"
proof (intro conjI impI)
  assume f: "fst (submitContact fetch c) = Inl e"
  have "\<exists>error. e = submitContactCatch error"
  proof (cases "fetch (contactRequest c)")
    case (Inl error)
    with f have "submitContactCatch error = e"
      by (simp add: submitContact_def)
    then show ?thesis by blast
  next
    case response: (Inr response)
    show ?thesis
    proof (cases "resp_json response")
      case (Inl error)
      with f response have "submitContactCatch error = e"
        by (simp add: submitContact_def)
      then show ?thesis by blast
    next
      case (Inr responseData)
      with f response
      have "submitContactCatch
              (newError (js ''HTTP error! status: '' @ toDecimal (resp_status response))) = e"
        by (simp add: submitContact_def split: if_splits)
      then show ?thesis by blast
    qed
  qed
  then obtain error where e: "e = submitContactCatch error" ..
  show "e \<in> {newError serverErrorMessage, newError connectionErrorMessage,
           newError genericErrorMessage}"
    unfolding e by (rule submitContactCatch_cases)
next
  assume "fetch (contactRequest c) = Inr response \<and> \<not> resp_ok response
        \<and> resp_json response = Inr responseData"
  then show "fst (submitContact fetch c) = Inl (newError serverErrorMessage)"
    by (simp add: submitContact_def submitContactCatch_def newError_def http_error_includes)
next
  assume "fetch (contactRequest c) = Inl error
        \<and> \<not> str_includes (err_message error) (js ''HTTP error'')"
  then show "fst (submitContact fetch c) =
        Inl (newError (if err_name error = js ''TypeError''
                          \<and> str_includes (err_message error) (js ''fetch'')
                       then connectionErrorMessage else genericErrorMessage))"
    by (simp add: submitContact_def submitContactCatch_def)
next
  assume "fetch (contactRequest c) = Inr response \<and> resp_ok response
        \<and> resp_json response = Inl error
        \<and> \<not> str_includes (err_message error) (js ''HTTP error'')
        \<and> \<not> str_includes (err_message error) (js ''fetch'')"
  then show "fst (submitContact fetch c) = Inl (newError genericErrorMessage)"
    by (simp add: submitContact_def submitContactCatch_def)
next
  assume "fetch (contactRequest c) = Inr response \<and> resp_ok response
        \<and> resp_json response = Inr responseData"
  then show "fst (submitContact fetch c) = Inr responseData"
    by (simp add: submitContact_def)
qed (rule messages_distinct)+

theorem submitContact_failure_witness:
  "fst (submitContact serverErrorFetch exampleContact) = Inl (newError serverErrorMessage)
   \<and> fst (submitContact failedToFetch exampleContact) = Inl (newError connectionErrorMessage)
   \<and> fst (submitContact loadFailedFetch exampleContact) = Inl (newError genericErrorMessage)
   \<and> fst (submitContact noContentFetch exampleContact) = Inl (newError genericErrorMessage)
   \<and> fst (submitContact createdFetch exampleContact) = Inr (JObj [(js ''id'', JNum 1)])"
proof (intro conjI)
  show "fst (submitContact serverErrorFetch exampleContact) = Inl (newError serverErrorMessage)"
    using submitContact_failure [where fetch = serverErrorFetch and c = exampleContact
        and response = "\<lparr>resp_status = 500,
          resp_json = Inr (JObj [(js ''error'', JStr (js ''ERROR_REQUEST_BODY_VALIDATION''))])\<rparr>"
        and responseData = "JObj [(js ''error'', JStr (js ''ERROR_REQUEST_BODY_VALIDATION''))]"]
    by (simp add: serverErrorFetch_def resp_ok_def)
  have s: "\<not> str_includes (js ''Failed to fetch'') (js ''HTTP error'')"
    "str_includes (js ''Failed to fetch'') (js ''fetch'')"
    "\<not> str_includes (js ''Load failed'') (js ''HTTP error'')"
    "\<not> str_includes (js ''Load failed'') (js ''fetch'')"
    by (simp_all add: js_def)
  show "fst (submitContact failedToFetch exampleContact) = Inl (newError connectionErrorMessage)"
    using submitContact_failure [where fetch = failedToFetch and c = exampleContact
        and error = "\<lparr>err_name = js ''TypeError'', err_message = js ''Failed to fetch''\<rparr>"]
    by (simp add: failedToFetch_def s)
  show "fst (submitContact loadFailedFetch exampleContact) = Inl (newError genericErrorMessage)"
    using submitContact_failure [where fetch = loadFailedFetch and c = exampleContact
        and error = "\<lparr>err_name = js ''TypeError'', err_message = js ''Load failed''\<rparr>"]
    by (simp add: loadFailedFetch_def s)
  have u: "\<not> str_includes (js ''Unexpected end of JSON input'') (js ''HTTP error'')"
    "\<not> str_includes (js ''Unexpected end of JSON input'') (js ''fetch'')"
    by (simp_all add: js_def)
  show "fst (submitContact noContentFetch exampleContact) = Inl (newError genericErrorMessage)"
    using submitContact_failure [where fetch = noContentFetch and c = exampleContact
        and response = "\<lparr>resp_status = 204,
          resp_json = Inl \<lparr>err_name = js ''SyntaxError'',
                            err_message = js ''Unexpected end of JSON input''\<rparr>\<rparr>"
        and error = "\<lparr>err_name = js ''SyntaxError'',
                            err_message = js ''Unexpected end of JSON input''\<rparr>"]
    by (simp add: noContentFetch_def resp_ok_def u)
  show "fst (submitContact createdFetch exampleContact) = Inr (JObj [(js ''id'', JNum 1)])"
    using submitContact_failure [where fetch = createdFetch and c = exampleContact
        and response = "\<lparr>resp_status = 200, resp_json = Inr (JObj [(js ''id'', JNum 1)])\<rparr>"
        and responseData = "JObj [(js ''id'', JNum 1)]"]
    by (simp add: createdFetch_def resp_ok_def)
qed

section \<open>Submitting the contact form\<close>

lemma validateName_trim: "validateName (trim x) = validateName x"
  by (simp add: validateName_def trim_idem)

lemma whiteSpace_not_digit: "isWhiteSpace c \<Longrightarrow> \<not> isDigit c"
  unfolding isWhiteSpace_def isDigit_def word_le_nat_alt by auto

lemma filter_dropWhile_disjoint:
  "(\<And>x. Q x \<Longrightarrow> \<not> P x) \<Longrightarrow> filter P (dropWhile Q xs) = filter P xs"
  by (induction xs) auto

lemma filter_isDigit_trim: "filter isDigit (trim w) = filter isDigit w"
proof -
  have "filter isDigit (dropWhile isWhiteSpace xs) = filter isDigit xs" for xs
    by (rule filter_dropWhile_disjoint) (rule whiteSpace_not_digit)
  then show ?thesis
    by (simp add: trim_def rev_filter [symmetric])
qed

lemma validateBrazilianPhone_trim: "validateBrazilianPhone (trim w) = validateBrazilianPhone w"
  by (simp add: validateBrazilianPhone_def replaceNonDigits_filter filter_isDigit_trim)

lemma validate_Nil: "\<not> validateName []" "\<not> validateBrazilianPhone []"
  by (simp_all add: validateName_def nameRegex_test_def trim_Nil validateBrazilianPhone_def)

lemma validateForm_cases:
  "validateForm (trim formName) (trim formWhatsapp) =
     (if \<not> validateName formName
      then [if trim formName = [] then nameRequiredMessage else nameInvalidMessage] else [])
     @ (if \<not> validateBrazilianPhone formWhatsapp
        then [if trim formWhatsapp = [] then whatsappRequiredMessage else whatsappInvalidMessage]
        else [])"
  using validate_Nil validateName_trim [of formName] validateBrazilianPhone_trim [of formWhatsapp]
  by (auto simp: validateForm_def)

lemma highlightInvalidFields_quiet:
  "list_all (\<lambda>e. \<not> isSubmitContact e \<and> \<not> isFetch e \<and> \<not> isShowFormError e)
     (highlightInvalidFields name whatsapp)"
  by (simp add: highlightInvalidFields_def)

lemma filter_quiet:
  "list_all (\<lambda>e. \<not> isSubmitContact e \<and> \<not> isFetch e \<and> \<not> isShowFormError e) ev \<Longrightarrow>
   filter isShowFormError ev = []"
  by (induction ev) auto

lemma handleFormSubmit_invalid:
  assumes "validateForm (trim formName) (trim formWhatsapp) = firstError # others"
  shows "handleFormSubmit fetch encodeURIComponent formName formWhatsapp cupom
           experienceName experienceId =
         [HideFormError, ClearFieldErrors, ShowFormError firstError]
         @ highlightInvalidFields (trim formName) (trim formWhatsapp)"
  using assms by (simp add: handleFormSubmit_def Let_def)

text \<open>
  C1, as the specification states it, fails: with a name and a phone that are both
  invalid, the one form error shown is the name's, not the phone's.
\<close>

theorem handleFormSubmit_counterexample:
  "\<not> validateName (js ''A1'') \<and> \<not> validateBrazilianPhone (js ''123'')
   \<and> filter isShowFormError
        (handleFormSubmit createdFetch identityEncode (js ''A1'') (js ''123'') [] (js ''Trilha'') 7)
       = [ShowFormError nameInvalidMessage]
   \<and> nameInvalidMessage \<noteq> whatsappInvalidMessage"
proof -
  have v: "\<not> validateName (js ''A1'')" "\<not> validateBrazilianPhone (js ''123'')"
    by (simp_all add: validateName_def nameRegex_test_def nameChar_def trim_def isWhiteSpace_def
        validateBrazilianPhone_def isDigit_def js_def)
  have t: "trim (js ''A1'') \<noteq> []"
    by (simp add: trim_def isWhiteSpace_def js_def)
  have "validateForm (trim (js ''A1'')) (trim (js ''123''))
      = nameInvalidMessage # [if trim (js ''123'') = [] then whatsappRequiredMessage
                              else whatsappInvalidMessage]"
    by (simp add: validateForm_cases v t)
  then have "filter isShowFormError
        (handleFormSubmit createdFetch identityEncode (js ''A1'') (js ''123'') [] (js ''Trilha'') 7)
       = [ShowFormError nameInvalidMessage]"
    by (simp add: handleFormSubmit_invalid
        filter_quiet [OF highlightInvalidFields_quiet])
  moreover have "nameInvalidMessage \<noteq> whatsappInvalidMessage"
    by (simp add: nameInvalidMessage_def whatsappInvalidMessage_def js_def)
  ultimately show ?thesis using v by simp
qed

text \<open>
  C1, amended. A form submitted with an invalid phone never reaches \<open>submitContact\<close> and
  sends no request. With an invalid name, the form error shown is the name's, whatever the
  phone is; the phone's error is the form error only when the name is valid.
\<close>

theorem handleFormSubmit_validation:
  "(\<not> validateBrazilianPhone formWhatsapp \<longrightarrow>
      list_all (\<lambda>e. \<not> isSubmitContact e \<and> \<not> isFetch e)
        (handleFormSubmit fetch encodeURIComponent formName formWhatsapp cupom
           experienceName experienceId))
   \<and> (\<not> validateName formName \<longrightarrow>
      filter isShowFormError
        (handleFormSubmit fetch encodeURIComponent formName formWhatsapp cupom
           experienceName experienceId)
      = [ShowFormError (if trim formName = [] then nameRequiredMessage else nameInvalidMessage)])
   \<and> (validateName formName \<and> \<not> validateBrazilianPhone formWhatsapp \<longrightarrow>
      filter isShowFormError
        (handleFormSubmit fetch encodeURIComponent formName formWhatsapp cupom
           experienceName experienceId)
      = [ShowFormError (if trim formWhatsapp = [] then whatsappRequiredMessage
                        else whatsappInvalidMessage)])"
proof -
  let ?ev = "handleFormSubmit fetch encodeURIComponent formName formWhatsapp cupom
           experienceName experienceId"
  have inv: "?ev = [HideFormError, ClearFieldErrors, ShowFormError firstError]
         @ highlightInvalidFields (trim formName) (trim formWhatsapp)"
    if "validateForm (trim formName) (trim formWhatsapp) = firstError # others"
    for firstError others
    using that by (rule handleFormSubmit_invalid)
  have q: "list_all (\<lambda>e. \<not> isSubmitContact e \<and> \<not> isFetch e)
      (highlightInvalidFields (trim formName) (trim formWhatsapp))"
    using highlightInvalidFields_quiet [of "trim formName" "trim formWhatsapp"]
    by (simp add: list_all_iff)
  note f = filter_quiet [OF highlightInvalidFields_quiet]
  show ?thesis
  proof (intro conjI impI)
    assume p: "\<not> validateBrazilianPhone formWhatsapp"
    then obtain firstError others
      where "validateForm (trim formName) (trim formWhatsapp) = firstError # others"
      by (cases "validateName formName") (simp_all add: validateForm_cases)
    then show "list_all (\<lambda>e. \<not> isSubmitContact e \<and> \<not> isFetch e) ?ev"
      using q by (simp add: inv)
  next
    assume n: "\<not> validateName formName"
    then have "validateForm (trim formName) (trim formWhatsapp)
        = (if trim formName = [] then nameRequiredMessage else nameInvalidMessage)
          # (if \<not> validateBrazilianPhone formWhatsapp
             then [if trim formWhatsapp = [] then whatsappRequiredMessage
                   else whatsappInvalidMessage]
             else [])"
      by (simp add: validateForm_cases)
    then show "filter isShowFormError ?ev
        = [ShowFormError (if trim formName = [] then nameRequiredMessage else nameInvalidMessage)]"
      by (simp add: inv f)
  next
    assume "validateName formName \<and> \<not> validateBrazilianPhone formWhatsapp"
    then have "validateForm (trim formName) (trim formWhatsapp)
        = [if trim formWhatsapp = [] then whatsappRequiredMessage else whatsappInvalidMessage]"
      by (simp add: validateForm_cases)
    then show "filter isShowFormError ?ev
        = [ShowFormError (if trim formWhatsapp = [] then whatsappRequiredMessage
                          else whatsappInvalidMessage)]"
      by (simp add: inv f)
  qed
qed

theorem handleFormSubmit_validation_witness:
  "validateName (js ''Ana'') \<and> \<not> validateBrazilianPhone (js ''123'')
   \<and> list_all (\<lambda>e. \<not> isSubmitContact e \<and> \<not> isFetch e)
        (handleFormSubmit createdFetch identityEncode (js ''Ana'') (js ''123'') [] (js ''Trilha'') 7)
   \<and> filter isShowFormError
        (handleFormSubmit createdFetch identityEncode (js ''Ana'') (js ''123'') [] (js ''Trilha'') 7)
       = [ShowFormError whatsappInvalidMessage]
   \<and> \<not> validateName (js '' '')
   \<and> filter isShowFormError
        (handleFormSubmit createdFetch identityEncode (js '' '') (js ''123'') [] (js ''Trilha'') 7)
       = [ShowFormError nameRequiredMessage]"
proof -
  have v: "validateName (js ''Ana'')" "\<not> validateBrazilianPhone (js ''123'')"
    "\<not> validateName (js '' '')"
    by (simp_all add: validateName_def nameRegex_test_def nameChar_def trim_def isWhiteSpace_def
        validateBrazilianPhone_def isDigit_def js_def)
  have t: "trim (js ''123'') \<noteq> []" "trim (js '' '') = []"
    by (simp_all add: trim_def isWhiteSpace_def js_def)
  show ?thesis
    using handleFormSubmit_validation
        [of "js ''123''" createdFetch identityEncode "js ''Ana''" "[]" "js ''Trilha''" 7]
      handleFormSubmit_validation
        [of "js ''123''" createdFetch identityEncode "js '' ''" "[]" "js ''Trilha''" 7]
    by (simp add: v t)
qed

text \<open>With a valid name and a valid phone the handler does call \<open>submitContact\<close>.\<close>

lemma handleFormSubmit_valid_submits:
  assumes "validateName formName" "validateBrazilianPhone formWhatsapp"
  shows "SubmitContact \<lparr>cd_name = trim formName, cd_whatsapp = trim formWhatsapp,
                         cd_experienceId = experienceId, cd_cupom = cupom\<rparr>
         \<in> set (handleFormSubmit fetch encodeURIComponent formName formWhatsapp cupom
                  experienceName experienceId)"
proof -
  have "validateForm (trim formName) (trim formWhatsapp) = []"
    using assms by (simp add: validateForm_cases)
  then show ?thesis
    by (simp add: handleFormSubmit_def Let_def)
qed

section \<open>Changing the language\<close>

lemma renderData_no_fetch: "list_all (\<lambda>e. \<not> isFetch e) (renderData urlParses s)"
  by (simp add: renderData_def split: jsval.splits sum.splits)

lemma renderData_cong:
  assumes "cachedData s = cachedData s'" and "currentLang s = currentLang s'"
  shows "renderData urlParses s = renderData urlParses s'"
  unfolding renderData_def assms ..

lemma loadTranslationsForLanguage_frame:
  assumes "loadTranslationsForLanguage loadTranslations language s = (r, s', ev)"
  shows "s' = s\<lparr>currentLang := currentLang s', appTranslations := appTranslations s'\<rparr>"
    and "list_all (\<lambda>e. \<not> isFetch e) ev"
  using assms
  by (auto simp: loadTranslationsForLanguage_def split: sum.splits if_splits)

text \<open>
  C7. A language change leaves the cached list as it was and sends no request: of the
  state only the current language and the translations change, and every event is a load
  of translations, an update of the labels, a render or a reset of the selector. When the
  change succeeds on a populated cache, it ends with the render of the cached list,
  formatted again in the language the state now has.
\<close>

theorem handleLanguageChange_keeps_cache:
  "handleLanguageChange loadTranslations urlParses newLang s = (r, s', ev) \<Longrightarrow>
   cachedData s' = cachedData s
   \<and> list_all (\<lambda>e. \<not> isFetch e) ev
   \<and> s' = s\<lparr>currentLang := currentLang s', appTranslations := appTranslations s'\<rparr>
   \<and> (r = Inr () \<and> newLang \<noteq> currentLang s \<and> truthy (cachedData s) \<longrightarrow>
        suffix (renderData urlParses (s\<lparr>currentLang := currentLang s'\<rparr>)) ev)"
proof (cases "newLang = currentLang s")
  case True
  assume "handleLanguageChange loadTranslations urlParses newLang s = (r, s', ev)"
  with True show ?thesis
    by (simp add: handleLanguageChange_def)
next
  case False
  assume h: "handleLanguageChange loadTranslations urlParses newLang s = (r, s', ev)"
  obtain r1 s1 ev1 where
    l: "loadTranslationsForLanguage loadTranslations newLang (s\<lparr>currentLang := newLang\<rparr>)
        = (r1, s1, ev1)"
    by (cases "loadTranslationsForLanguage loadTranslations newLang (s\<lparr>currentLang := newLang\<rparr>)")
  note f = loadTranslationsForLanguage_frame [OF l]
  have c1: "cachedData s1 = cachedData s"
    by (subst f(1)) simp
  show ?thesis
  proof (cases r1)
    case (Inl error)
    with h l False have e: "r = Inl error" "s' = s1\<lparr>currentLang := currentLang s\<rparr>"
      "ev = ev1 @ [SetLangSelect (currentLang s)]"
      by (auto simp: handleLanguageChange_def Let_def)
    have "s' = s\<lparr>currentLang := currentLang s', appTranslations := appTranslations s'\<rparr>"
      unfolding e by (subst f(1)) simp
    then show ?thesis
      using f(2) c1 e by simp
  next
    case (Inr u)
    with h l False have e: "r = Inr ()" "s' = s1"
      "ev = ev1 @ (if truthy (cachedData s1) then renderData urlParses s1 else [])"
      by (auto simp: handleLanguageChange_def Let_def)
    have s: "s' = s\<lparr>currentLang := currentLang s', appTranslations := appTranslations s'\<rparr>"
      unfolding e by (subst f(1)) simp
    have "renderData urlParses (s\<lparr>currentLang := currentLang s1\<rparr>) = renderData urlParses s1"
      by (rule renderData_cong) (simp_all add: c1)
    then have "suffix (renderData urlParses (s\<lparr>currentLang := currentLang s'\<rparr>)) ev"
      if "truthy (cachedData s)"
      using that c1 by (simp add: e suffixI)
    then show ?thesis
      using f(2) c1 e s renderData_no_fetch [of urlParses s1] by simp
  qed
qed

theorem handleLanguageChange_keeps_cache_witness:
  "fst (handleLanguageChange exampleLoad httpsUrl (js ''en-us'') exampleState) = Inr ()
   \<and> truthy (cachedData exampleState)
   \<and> cachedData (fst (snd (handleLanguageChange exampleLoad httpsUrl (js ''en-us'') exampleState)))
       = cachedData exampleState
   \<and> currentLang (fst (snd (handleLanguageChange exampleLoad httpsUrl (js ''en-us'') exampleState)))
       = js ''en-us''
   \<and> list_all (\<lambda>e. \<not> isFetch e)
        (snd (snd (handleLanguageChange exampleLoad httpsUrl (js ''en-us'') exampleState)))
   \<and> suffix (renderData httpsUrl (exampleState\<lparr>currentLang := js ''en-us''\<rparr>))
        (snd (snd (handleLanguageChange exampleLoad httpsUrl (js ''en-us'') exampleState)))"
proof -
  let ?h = "handleLanguageChange exampleLoad httpsUrl (js ''en-us'') exampleState"
  have h: "?h = (fst ?h, fst (snd ?h), snd (snd ?h))"
    by simp
  have n: "js ''en-us'' \<noteq> currentLang exampleState" "truthy (cachedData exampleState)"
    by (simp_all add: exampleState_def js_def)
  have l: "loadTranslationsForLanguage exampleLoad (js ''en-us'')
             (exampleState\<lparr>currentLang := js ''en-us''\<rparr>)
           = (Inr (), exampleState\<lparr>currentLang := js ''en-us'',
                                   appTranslations := [(js ''whatsapp'', js ''Contact us'')]\<rparr>,
              [LoadTranslations (js ''en-us''),
               UpdateLanguageLabels [(js ''whatsapp'', js ''Contact us'')]])"
    by (simp add: loadTranslationsForLanguage_def exampleLoad_def)
  have r: "fst ?h = Inr ()" "currentLang (fst (snd ?h)) = js ''en-us''"
    using n by (simp_all add: handleLanguageChange_def Let_def l)
  show ?thesis
    using handleLanguageChange_keeps_cache [OF h] n r by simp
qed

text \<open>What the example renders after the switch: both cached records, in English.\<close>

lemma renderData_example:
  "renderData httpsUrl (exampleState\<lparr>currentLang := js ''en-us''\<rparr>) =
     [RenderExperiences
        [\<lparr>fe_id = JNum 7, fe_name = JStr namePlaceholder,
          fe_description = JStr descriptionPlaceholder,
          fe_imageUrl = JStr (js ''https://baserow.io/a.png''),
          fe_originalData = exampleExperience\<rparr>,
         \<lparr>fe_id = JNum 8, fe_name = JStr (js ''Boat''),
          fe_description = JStr (js ''A boat tour''),
          fe_imageUrl = JStr (js ''https://files.example/b.JPG?x=1''),
          fe_originalData = exampleExperience2\<rparr>]]"
proof -
  have v: "validateExperienceData exampleExperience = Inr (JStr (js ''Caminhada''))"
    "validateExperienceData exampleExperience2 = Inr (JStr (js ''A boat tour''))"
    by (simp_all add: validateExperienceData_def exampleExperience_def exampleExperience2_def
        js_and_def js_or_def js_def)
  have f: "formatExperienceData httpsUrl exampleExperience (js ''en-us'') =
      Inr \<lparr>fe_id = JNum 7, fe_name = JStr namePlaceholder,
          fe_description = JStr descriptionPlaceholder,
          fe_imageUrl = JStr (js ''https://baserow.io/a.png''),
          fe_originalData = exampleExperience\<rparr>"
    by (simp add: exampleExperience_def exampleAttachment_def formatExperienceData_def
        tryImageUrlField_eq tryThumbnail_eq tryOriginal_eq firstAttachment_def
        isValidImageUrl_def httpsUrl_def trim_def isWhiteSpace_def js_or_def js_def Let_def)
  have g: "formatExperienceData httpsUrl exampleExperience2 (js ''en-us'') =
      Inr \<lparr>fe_id = JNum 8, fe_name = JStr (js ''Boat''),
          fe_description = JStr (js ''A boat tour''),
          fe_imageUrl = JStr (js ''https://files.example/b.JPG?x=1''),
          fe_originalData = exampleExperience2\<rparr>"
    by (simp add: exampleExperience2_def formatExperienceData_def
        tryImageUrlField_eq tryThumbnail_eq tryOriginal_eq firstAttachment_def
        isValidImageUrl_def httpsUrl_def trim_def isWhiteSpace_def js_or_def js_def Let_def
        extensionHere_def imageExtensionList_def lowerAscii_def isLineTerminator_def)
  have c: "getProp (cachedData exampleState) (js ''results'')
      = JArr [exampleExperience, exampleExperience2]"
    by (simp add: exampleState_def)
  have t: "js ''Caminhada'' \<noteq> []" "js ''A boat tour'' \<noteq> []"
    "truthy (cachedData exampleState)"
    by (simp_all add: js_def exampleState_def)
  show ?thesis
    by (simp add: renderData_def c v f g t)
qed

text \<open>
  The list is fetched by \<open>loadAppData\<close>, and only when the cache is empty; \<open>handleRetry\<close>
  empties it first.
\<close>

lemma loadAppData_cached:
  assumes "truthy (cachedData s)"
  shows "cachedData (fst (loadAppData fetch loadTranslations urlParses s)) = cachedData s"
    and "list_all (\<lambda>e. \<not> isFetch e) (snd (loadAppData fetch loadTranslations urlParses s))"
proof -
  obtain r1 s1 ev1 where
    l: "loadTranslationsForLanguage loadTranslations (currentLang s) (s\<lparr>isLoading := True\<rparr>)
        = (r1, s1, ev1)"
    by (cases "loadTranslationsForLanguage loadTranslations (currentLang s) (s\<lparr>isLoading := True\<rparr>)")
  note f = loadTranslationsForLanguage_frame [OF l]
  have c: "cachedData s1 = cachedData s"
    by (subst f(1)) simp
  show "cachedData (fst (loadAppData fetch loadTranslations urlParses s)) = cachedData s"
    using assms c by (cases r1) (simp_all add: loadAppData_def l)
  show "list_all (\<lambda>e. \<not> isFetch e) (snd (loadAppData fetch loadTranslations urlParses s))"
    using assms c f(2) renderData_no_fetch [of urlParses s1]
    by (cases r1) (simp_all add: loadAppData_def l loadAppDataCatch_def)
qed

lemma loadAppData_fetches:
  assumes "\<not> isLoading s" and "\<not> truthy (cachedData s)"
    and "fst (loadTranslationsForLanguage loadTranslations (currentLang s) (s\<lparr>isLoading := True\<rparr>))
         = Inr ()"
  shows "Fetch experiencesRequest \<in> set (snd (loadAppData fetch loadTranslations urlParses s))"
proof -
  obtain r1 s1 ev1 where
    l: "loadTranslationsForLanguage loadTranslations (currentLang s) (s\<lparr>isLoading := True\<rparr>)
        = (r1, s1, ev1)"
    by (cases "loadTranslationsForLanguage loadTranslations (currentLang s) (s\<lparr>isLoading := True\<rparr>)")
  note f = loadTranslationsForLanguage_frame [OF l]
  have c: "cachedData s1 = cachedData s"
    by (subst f(1)) simp
  have r: "r1 = Inr ()"
    using assms(3) l by simp
  show ?thesis
    using assms(1,2) c
    by (cases "fst (fetchExperiences fetch)")
      (simp_all add: loadAppData_def l r fetchExperiences_def split: prod.splits)
qed

end
